theory Spec2Isabelle
  imports Complex_Main "HOL-Library.Sublist"
begin

section \<open>JavaScript values used by the analysis engine\<close>

text \<open>
  The engine (\<^verbatim>\<open>analyzeData\<close>, \<^verbatim>\<open>generateCSV\<close> in the server file) works on
  JavaScript numbers and strings. Finite numbers are idealised as rationals (no rounding of
  doubles, no overflow, no negative zero); the non-finite results that a division by zero
  produces are kept as values of their own, so that "this division never yields
  Infinity or NaN" is a statement about the model and not something the model hides.
\<close>

datatype jsnum = Fin rat | PosInf | NegInf | NaN

fun is_Fin :: "jsnum \<Rightarrow> bool" where
  "is_Fin (Fin x) = True"
| "is_Fin _ = False"

fun the_Fin :: "jsnum \<Rightarrow> rat" where
  "the_Fin (Fin x) = x"
| "the_Fin _ = 0"

fun js_neg :: "jsnum \<Rightarrow> jsnum" where
  "js_neg (Fin x) = Fin (- x)"
| "js_neg PosInf = NegInf"
| "js_neg NegInf = PosInf"
| "js_neg NaN = NaN"

fun js_abs :: "jsnum \<Rightarrow> jsnum" where
  "js_abs (Fin x) = Fin \<bar>x\<bar>"
| "js_abs PosInf = PosInf"
| "js_abs NegInf = PosInf"
| "js_abs NaN = NaN"

fun js_add :: "jsnum \<Rightarrow> jsnum \<Rightarrow> jsnum" where
  "js_add (Fin x) (Fin y) = Fin (x + y)"
| "js_add NaN _ = NaN"
| "js_add _ NaN = NaN"
| "js_add PosInf NegInf = NaN"
| "js_add NegInf PosInf = NaN"
| "js_add PosInf _ = PosInf"
| "js_add NegInf _ = NegInf"
| "js_add (Fin x) y = y"

definition js_sub :: "jsnum \<Rightarrow> jsnum \<Rightarrow> jsnum" where
  "js_sub x y = js_add x (js_neg y)"

fun js_mul :: "jsnum \<Rightarrow> jsnum \<Rightarrow> jsnum" where
  "js_mul (Fin x) (Fin y) = Fin (x * y)"
| "js_mul NaN _ = NaN"
| "js_mul _ NaN = NaN"
| "js_mul (Fin x) PosInf = (if x = 0 then NaN else if 0 < x then PosInf else NegInf)"
| "js_mul (Fin x) NegInf = (if x = 0 then NaN else if 0 < x then NegInf else PosInf)"
| "js_mul PosInf (Fin y) = (if y = 0 then NaN else if 0 < y then PosInf else NegInf)"
| "js_mul NegInf (Fin y) = (if y = 0 then NaN else if 0 < y then NegInf else PosInf)"
| "js_mul PosInf PosInf = PosInf"
| "js_mul NegInf NegInf = PosInf"
| "js_mul PosInf NegInf = NegInf"
| "js_mul NegInf PosInf = NegInf"

text \<open>
  Division: a finite non-zero numerator over zero is an infinity, \<open>0 / 0\<close> is NaN.
  (The zero divisor is taken as positive zero; the engine never produces a negative zero
  divisor, since \<^verbatim>\<open>parseFloat(x) || 0\<close> maps it to \<open>0\<close>.)
\<close>

fun js_div :: "jsnum \<Rightarrow> jsnum \<Rightarrow> jsnum" where
  "js_div (Fin x) (Fin y) =
     (if y \<noteq> 0 then Fin (x / y)
      else if 0 < x then PosInf else if x < 0 then NegInf else NaN)"
| "js_div NaN _ = NaN"
| "js_div _ NaN = NaN"
| "js_div (Fin x) _ = Fin 0"
| "js_div PosInf (Fin y) = (if 0 \<le> y then PosInf else NegInf)"
| "js_div NegInf (Fin y) = (if 0 \<le> y then NegInf else PosInf)"
| "js_div _ _ = NaN"

text \<open>Comparisons: every comparison with NaN is false.\<close>

fun js_le :: "jsnum \<Rightarrow> jsnum \<Rightarrow> bool" where
  "js_le (Fin x) (Fin y) = (x \<le> y)"
| "js_le NaN _ = False"
| "js_le _ NaN = False"
| "js_le NegInf _ = True"
| "js_le _ PosInf = True"
| "js_le _ _ = False"

fun js_lt :: "jsnum \<Rightarrow> jsnum \<Rightarrow> bool" where
  "js_lt (Fin x) (Fin y) = (x < y)"
| "js_lt NaN _ = False"
| "js_lt _ NaN = False"
| "js_lt PosInf _ = False"
| "js_lt _ NegInf = False"
| "js_lt _ _ = True"

definition js_ge :: "jsnum \<Rightarrow> jsnum \<Rightarrow> bool" where
  "js_ge x y = js_le y x"

definition js_gt :: "jsnum \<Rightarrow> jsnum \<Rightarrow> bool" where
  "js_gt x y = js_lt y x"

text \<open>\<^verbatim>\<open>Math.min\<close> and \<^verbatim>\<open>Math.max\<close> of two numbers: NaN if either is NaN.\<close>

definition Math_min :: "jsnum \<Rightarrow> jsnum \<Rightarrow> jsnum" where
  "Math_min x y = (if x = NaN \<or> y = NaN then NaN else if js_le x y then x else y)"

definition Math_max :: "jsnum \<Rightarrow> jsnum \<Rightarrow> jsnum" where
  "Math_max x y = (if x = NaN \<or> y = NaN then NaN else if js_le x y then y else x)"

text \<open>
  \<^verbatim>\<open>x.toFixed(d)\<close> renders \<open>x\<close> with \<open>d\<close> decimals, ties going away from zero;
  the model keeps the number the rendered text denotes (the text is only ever read back
  with \<^verbatim>\<open>parseFloat\<close> or by numeric coercion). Non-finite values render as themselves.
\<close>

definition round_half_away :: "nat \<Rightarrow> rat \<Rightarrow> rat" where
  "round_half_away d x =
     (let s = 10 ^ d; n = \<lfloor>\<bar>x\<bar> * s + 1 / 2\<rfloor>
      in (if x < 0 then - 1 else 1) * of_int n / s)"

fun toFixed :: "nat \<Rightarrow> jsnum \<Rightarrow> jsnum" where
  "toFixed d (Fin x) = Fin (round_half_away d x)"
| "toFixed d x = x"

text \<open>\<^verbatim>\<open>parseFloat(cell) || 0\<close> and \<^verbatim>\<open>cell || 0\<close>: a cell is given by the number
  \<^verbatim>\<open>parseFloat\<close> reads from it, \<open>None\<close> standing for NaN (a missing or non-numeric cell).\<close>

definition num_or_0 :: "rat option \<Rightarrow> rat" where
  "num_or_0 v = (case v of None \<Rightarrow> 0 | Some x \<Rightarrow> x)"

text \<open>\<^verbatim>\<open>cell || dflt\<close> on a text cell: a missing cell and the empty string are both falsy.\<close>

definition str_or :: "string option \<Rightarrow> string \<Rightarrow> string" where
  "str_or v dflt = (case v of None \<Rightarrow> dflt | Some s \<Rightarrow> (if s = [] then dflt else s))"

text \<open>
  A cell that the engine stores and uses without parsing it (the completion column): the
  code only tests it for truthiness (\<^verbatim>\<open>cell || 0\<close>) and coerces it to a number in
  arithmetic and comparisons. Such a cell is \<open>Falsy\<close> (missing, \<open>0\<close>, the empty text or
  \<^verbatim>\<open>false\<close>) or \<open>Truthy v\<close>, where \<open>v\<close> is the number the coercion reads from it: the
  cell itself when it is a number, the numeral a text spells, and NaN for a text such as
  \<open>N/A\<close> that spells none.
\<close>

datatype numcell = Falsy | Truthy jsnum

text \<open>The number read from \<^verbatim>\<open>cell || 0\<close>.\<close>

definition cell_or_0 :: "numcell \<Rightarrow> jsnum" where
  "cell_or_0 c = (case c of Falsy \<Rightarrow> Fin 0 | Truthy v \<Rightarrow> v)"

subsection \<open>Exceptions\<close>

text \<open>
  A function of the engine that can throw returns \<open>Inl\<close> of the error; \<open>forEach f s xs\<close> is
  a \<^verbatim>\<open>forEach\<close> loop whose body \<open>f\<close> updates the state \<open>s\<close> and may throw, which ends
  the loop and the function around it.
\<close>

datatype js_error = TypeError

fun forEach :: "('s \<Rightarrow> 'a \<Rightarrow> js_error + 's) \<Rightarrow> 's \<Rightarrow> 'a list \<Rightarrow> js_error + 's" where
  "forEach f s [] = Inr s"
| "forEach f s (x # xs) = (case f s x of Inl e \<Rightarrow> Inl e | Inr s' \<Rightarrow> forEach f s' xs)"

subsection \<open>Strings\<close>

text \<open>
  Strings are byte lists; whitespace and letter case are those of ASCII.
  \<^verbatim>\<open>trim\<close>, \<^verbatim>\<open>toLowerCase\<close>, \<^verbatim>\<open>includes\<close>, \<^verbatim>\<open>split(',')\<close> and
  \<^verbatim>\<open>replace(/\s+/g, ' ')\<close> are the String methods the engine calls.
\<close>

definition js_ws :: "char \<Rightarrow> bool" where
  "js_ws c = (c \<in> set [CHR '' '', CHR 0x09, CHR 0x0A, CHR 0x0B, CHR 0x0C, CHR 0x0D])"

definition toLowerCase_char :: "char \<Rightarrow> char" where
  "toLowerCase_char c =
     (case map_of (zip ''ABCDEFGHIJKLMNOPQRSTUVWXYZ'' ''abcdefghijklmnopqrstuvwxyz'') c of
        Some d \<Rightarrow> d | None \<Rightarrow> c)"

definition toLowerCase :: "string \<Rightarrow> string" where
  "toLowerCase s = map toLowerCase_char s"

definition trim :: "string \<Rightarrow> string" where
  "trim s = rev (dropWhile js_ws (rev (dropWhile js_ws s)))"

fun js_includes :: "string \<Rightarrow> string \<Rightarrow> bool" where
  "js_includes [] t = (t = [])"
| "js_includes (c # cs) t = (prefix t (c # cs) \<or> js_includes cs t)"

fun split_comma :: "string \<Rightarrow> string list" where
  "split_comma [] = [[]]"
| "split_comma (c # cs) =
     (if c = CHR '','' then [] # split_comma cs
      else (case split_comma cs of [] \<Rightarrow> [[c]] | w # ws \<Rightarrow> (c # w) # ws))"

function collapse_ws :: "string \<Rightarrow> string" where
  "collapse_ws [] = []"
| "collapse_ws (c # cs) =
     (if js_ws c then CHR '' '' # collapse_ws (dropWhile js_ws cs)
      else c # collapse_ws cs)"
  by pat_completeness auto
termination
  by (relation "measure length") (auto simp: length_dropWhile_le less_Suc_eq_le)

section \<open>Data model\<close>

text \<open>
  A row of the spreadsheet, as \<^verbatim>\<open>analyzeData\<close> reads it. The two hour columns hold
  what \<^verbatim>\<open>parseFloat\<close> returns for the cell (\<open>None\<close>: NaN); a text column is \<open>None\<close>
  when the cell is missing. The cells of the text columns are strings, as the engine's
  calls to \<^verbatim>\<open>split\<close>, \<^verbatim>\<open>trim\<close> and \<^verbatim>\<open>toLowerCase\<close> on them require (on a cell
  holding a number these calls throw). The completion column is never parsed and is kept
  as the cell it is.
\<close>

record row =
  Budget_Hrs :: "rat option"
  Total_Hrs_Posted :: "rat option"
  Job_Number :: "string option"
  Resources_Engaged :: "string option"
  Solution_Architect :: "string option"
  Customer :: "string option"
  Job_Description :: "string option"
  Project_Status :: "string option"
  Project_Complete :: numcell

record exclusion =
  excl_consultant :: string
  excl_project :: string

text \<open>The filter object: each member may be absent (\<^verbatim>\<open>null\<close> or \<^verbatim>\<open>undefined\<close>).\<close>

record filters =
  engineers :: "string list option"
  solutionArchitects :: "string list option"
  exclusions :: "exclusion list option"

section \<open>Filter evaluator\<close>

text \<open>
  The engineer filter of pass 1 (source lines 696 to 708): the consultant goes on unless
  a non-empty list is given and no entry matches.
\<close>

definition engineer_filter_passes :: "filters \<Rightarrow> string \<Rightarrow> bool" where
  "engineer_filter_passes flt consultant =
     (case engineers flt of
        None \<Rightarrow> True
      | Some engs \<Rightarrow>
          (if 0 < length engs then
             (let normalizedConsultant = trim (toLowerCase consultant)
              in list_ex (\<lambda>eng.
                   let normalizedEng = trim (toLowerCase eng)
                   in normalizedEng = normalizedConsultant \<or>
                      js_includes normalizedConsultant normalizedEng \<or>
                      js_includes normalizedEng normalizedConsultant) engs)
           else True))"

text \<open>The solution-architect filter of pass 1 (source lines 762 to 774).\<close>

definition sa_filter_passes :: "filters \<Rightarrow> string \<Rightarrow> bool" where
  "sa_filter_passes flt sa =
     (case solutionArchitects flt of
        None \<Rightarrow> True
      | Some sas \<Rightarrow>
          (if 0 < length sas then
             (let normalizedSA = trim (toLowerCase sa)
              in list_ex (\<lambda>filterSA.
                   let normalizedFilterSA = trim (toLowerCase filterSA)
                   in normalizedFilterSA = normalizedSA \<or>
                      js_includes normalizedSA normalizedFilterSA \<or>
                      js_includes normalizedFilterSA normalizedSA) sas)
           else True))"

text \<open>The exclusion test of pass 1 (source lines 711 to 716); only consultants meet it.\<close>

definition is_excluded :: "filters \<Rightarrow> string \<Rightarrow> string \<Rightarrow> bool" where
  "is_excluded flt consultant jobNumber =
     (case exclusions flt of
        None \<Rightarrow> False
      | Some excls \<Rightarrow>
          list_ex (\<lambda>excl.
            trim (toLowerCase (excl_consultant excl)) = trim (toLowerCase consultant) \<and>
            trim (excl_project excl) = trim jobNumber) excls)"

text \<open>
  The allow-list rule in the words of the specification: no list or an empty list admits
  every name; otherwise some entry, both sides trimmed and compared without regard to
  case, equals the name, occurs inside the name, or has the name inside it.
\<close>

definition passesAllowList :: "string \<Rightarrow> string list option \<Rightarrow> bool" where
  "passesAllowList name allowList =
     (case allowList of
        None \<Rightarrow> True
      | Some entries \<Rightarrow>
          entries = [] \<or>
          (\<exists>e \<in> set entries.
             toLowerCase (trim e) = toLowerCase (trim name) \<or>
             sublist (toLowerCase (trim e)) (toLowerCase (trim name)) \<or>
             sublist (toLowerCase (trim name)) (toLowerCase (trim e))))"

section \<open>Variance and success classifier\<close>

text \<open>The expression \<^verbatim>\<open>(actualHrs - budgetHrs) / budgetHrs\<close>, written out at every place
  of \<^verbatim>\<open>analyzeData\<close> that classifies a project.\<close>

definition variance :: "rat \<Rightarrow> rat \<Rightarrow> jsnum" where
  "variance actual budget = js_div (Fin (actual - budget)) (Fin budget)"

text \<open>The configuration object; \<^verbatim>\<open>config.thresholds?.success_threshold || 0.3\<close>.\<close>

datatype cfgval = Undefined | Null | Num jsnum

record thresholds_cfg =
  success_threshold :: cfgval

record config =
  thresholds :: "thresholds_cfg option"

definition successThreshold :: "config \<Rightarrow> jsnum" where
  "successThreshold cfg =
     (case thresholds cfg of
        None \<Rightarrow> Fin (3 / 10)
      | Some t \<Rightarrow>
          (case success_threshold t of
             Num x \<Rightarrow> (if x = NaN \<or> x = Fin 0 then Fin (3 / 10) else x)
           | _ \<Rightarrow> Fin (3 / 10)))"

section \<open>Entity aggregator\<close>

subsection \<open>Accumulators\<close>

record project_detail =
  pd_jobNumber :: string
  pd_description :: string
  pd_customer :: string
  pd_budgetHrs :: rat
  pd_actualHrs :: rat
  pd_variance :: jsnum
  pd_status :: string
  pd_completion :: jsnum

record consultant_acc =
  c_projects :: nat
  c_totalHours :: rat
  c_withinBudget :: nat
  c_overBudget :: nat
  c_projectDetails :: "project_detail list"

record sa_acc =
  sa_projects :: nat
  sa_totalBudgetedHours :: rat
  sa_totalActualHours :: rat
  sa_successfulProjects :: nat
  sa_projectDetails :: "project_detail list"

record customer_detail =
  cd_jobNumber :: string
  cd_description :: string
  cd_budgetHrs :: rat
  cd_actualHrs :: rat
  cd_variance :: jsnum
  cd_status :: string
  cd_completion :: jsnum
  cd_resources :: string
  cd_solutionArchitect :: string

record customer_acc =
  cu_projects :: nat
  cu_totalBudgetHrs :: rat
  cu_totalActualHrs :: rat
  cu_totalVariance :: jsnum
  cu_withinBudget :: nat
  cu_overBudget :: nat
  cu_projectDetails :: "customer_detail list"

text \<open>
  The accumulator objects \<^verbatim>\<open>consultants\<close>, \<^verbatim>\<open>solutionArchitects\<close>, \<^verbatim>\<open>customers\<close> and
  \<^verbatim>\<open>allCustomers\<close> are dictionaries from a name to an accumulator, listed in the order
  the keys were first written (the order of \<^verbatim>\<open>Object.keys\<close> for names that are not
  numerals). They are plain objects, so a lookup \<^verbatim>\<open>m[k]\<close> also finds the members every
  object inherits from \<^verbatim>\<open>Object.prototype\<close>.
\<close>

definition prototype_keys :: "string list" where
  "prototype_keys =
     [''constructor'', ''__proto__'', ''toString'', ''toLocaleString'', ''valueOf'',
      ''hasOwnProperty'', ''isPrototypeOf'', ''propertyIsEnumerable'', ''__defineGetter__'',
      ''__defineSetter__'', ''__lookupGetter__'', ''__lookupSetter__'']"

text \<open>\<open>put_entry init f k\<close> creates the accumulator of \<open>k\<close> as \<open>init\<close> if the dictionary has
  none of its own, and updates it by \<open>f\<close>.\<close>

fun put_entry :: "'a \<Rightarrow> ('a \<Rightarrow> 'a) \<Rightarrow> string \<Rightarrow> (string \<times> 'a) list \<Rightarrow> (string \<times> 'a) list" where
  "put_entry init f k [] = [(k, f init)]"
| "put_entry init f k ((k', v) # kvs) =
     (if k' = k then (k', f v) # kvs else (k', v) # put_entry init f k kvs)"

text \<open>
  \<open>upd_entry init f k\<close> is the idiom
  \<^verbatim>\<open>if (!m[k]) m[k] = init; m[k].projects++; ...; m[k].projectDetails.push(...)\<close>.
  For a key of \<open>prototype_keys\<close> the lookup \<^verbatim>\<open>m[k]\<close> yields the inherited member, a function
  or object and so truthy: no accumulator is created, the counters are written onto the
  inherited member, and \<^verbatim>\<open>m[k].projectDetails\<close> is \<^verbatim>\<open>undefined\<close>, so that the call of
  \<^verbatim>\<open>push\<close> throws a TypeError. Such a key never becomes a key of the dictionary itself.
\<close>

definition upd_entry ::
  "'a \<Rightarrow> ('a \<Rightarrow> 'a) \<Rightarrow> string \<Rightarrow> (string \<times> 'a) list \<Rightarrow> js_error + (string \<times> 'a) list" where
  "upd_entry init f k m =
     (if k \<in> set prototype_keys then Inl TypeError else Inr (put_entry init f k m))"

definition empty_consultant :: consultant_acc where
  "empty_consultant =
     \<lparr>c_projects = 0, c_totalHours = 0, c_withinBudget = 0, c_overBudget = 0,
      c_projectDetails = []\<rparr>"

definition empty_sa :: sa_acc where
  "empty_sa =
     \<lparr>sa_projects = 0, sa_totalBudgetedHours = 0, sa_totalActualHours = 0,
      sa_successfulProjects = 0, sa_projectDetails = []\<rparr>"

definition empty_customer :: customer_acc where
  "empty_customer =
     \<lparr>cu_projects = 0, cu_totalBudgetHrs = 0, cu_totalActualHrs = 0, cu_totalVariance = Fin 0,
      cu_withinBudget = 0, cu_overBudget = 0, cu_projectDetails = []\<rparr>"

subsection \<open>What a row holds\<close>

definition budgetHrs :: "row \<Rightarrow> rat" where
  "budgetHrs r = num_or_0 (Budget_Hrs r)"

definition actualHrs :: "row \<Rightarrow> rat" where
  "actualHrs r = num_or_0 (Total_Hrs_Posted r)"

definition jobNumber :: "row \<Rightarrow> string" where
  "jobNumber r = str_or (Job_Number r) []"

text \<open>The name normaliser, written inline for both multi-valued columns:
  \<^verbatim>\<open>field.split(',').map(name => { const normalized = name.trim().replace(/\s+/g, ' ');
  return normalized.length > 1 ? normalized : null; }).filter(name => name !== null)\<close>.\<close>

definition normalize_name :: "string \<Rightarrow> string option" where
  "normalize_name name =
     (let normalized = collapse_ws (trim name)
      in if 1 < length normalized then Some normalized else None)"

definition name_list :: "string \<Rightarrow> string list" where
  "name_list field = List.map_filter normalize_name (split_comma field)"

definition project_snapshot :: "row \<Rightarrow> project_detail" where
  "project_snapshot r =
     \<lparr>pd_jobNumber = jobNumber r,
      pd_description = str_or (Job_Description r) [],
      pd_customer = str_or (Customer r) [],
      pd_budgetHrs = budgetHrs r,
      pd_actualHrs = actualHrs r,
      pd_variance = toFixed 1 (js_mul (variance (actualHrs r) (budgetHrs r)) (Fin 100)),
      pd_status = str_or (Project_Status r) [],
      pd_completion = cell_or_0 (Project_Complete r)\<rparr>"

definition customer_snapshot :: "row \<Rightarrow> customer_detail" where
  "customer_snapshot r =
     \<lparr>cd_jobNumber = jobNumber r,
      cd_description = str_or (Job_Description r) [],
      cd_budgetHrs = budgetHrs r,
      cd_actualHrs = actualHrs r,
      cd_variance = toFixed 1 (js_mul (variance (actualHrs r) (budgetHrs r)) (Fin 100)),
      cd_status = str_or (Project_Status r) [],
      cd_completion = cell_or_0 (Project_Complete r),
      cd_resources = str_or (Resources_Engaged r) [],
      cd_solutionArchitect = str_or (Solution_Architect r) []\<rparr>"

subsection \<open>Pass 1: consultants, solution architects, practice projects\<close>

text \<open>One accepted consultant contribution (source lines 730 to 749).\<close>

definition add_consultant_project :: "jsnum \<Rightarrow> row \<Rightarrow> consultant_acc \<Rightarrow> consultant_acc" where
  "add_consultant_project thr r c =
     (let c' = c\<lparr>c_projects := c_projects c + 1,
                 c_totalHours := c_totalHours c + actualHrs r,
                 c_projectDetails := c_projectDetails c @ [project_snapshot r]\<rparr>
      in if js_le (variance (actualHrs r) (budgetHrs r)) thr
         then c'\<lparr>c_withinBudget := c_withinBudget c' + 1\<rparr>
         else c'\<lparr>c_overBudget := c_overBudget c' + 1\<rparr>)"

text \<open>The body of \<^verbatim>\<open>consultantList.forEach\<close>: the state is the dictionary and the flag
  \<^verbatim>\<open>isPracticeProject\<close>; each \<^verbatim>\<open>return\<close> leaves both as they are, and a throw in the
  accumulator update ends the analysis.\<close>

definition consultant_step ::
  "filters \<Rightarrow> jsnum \<Rightarrow> row \<Rightarrow> (string \<times> consultant_acc) list \<times> bool \<Rightarrow> string \<Rightarrow>
   js_error + (string \<times> consultant_acc) list \<times> bool" where
  "consultant_step flt thr r st consultant =
     (if \<not> engineer_filter_passes flt consultant then Inr st
      else if is_excluded flt consultant (jobNumber r) then Inr st
      else (case upd_entry empty_consultant (add_consultant_project thr r) consultant (fst st) of
              Inl e \<Rightarrow> Inl e
            | Inr m \<Rightarrow> Inr (m, True)))"

definition process_consultants ::
  "filters \<Rightarrow> jsnum \<Rightarrow> row \<Rightarrow> (string \<times> consultant_acc) list \<times> bool \<Rightarrow>
   js_error + (string \<times> consultant_acc) list \<times> bool" where
  "process_consultants flt thr r st =
     (let resources = str_or (Resources_Engaged r) []
      in if resources \<noteq> [] \<and> 0 < budgetHrs r
         then forEach (consultant_step flt thr r) st (name_list resources)
         else Inr st)"

text \<open>One accepted solution-architect contribution (source lines 788 to 806).\<close>

definition add_sa_project :: "jsnum \<Rightarrow> row \<Rightarrow> sa_acc \<Rightarrow> sa_acc" where
  "add_sa_project thr r s =
     (let s' = s\<lparr>sa_projects := sa_projects s + 1,
                 sa_totalBudgetedHours := sa_totalBudgetedHours s + budgetHrs r,
                 sa_totalActualHours := sa_totalActualHours s + actualHrs r,
                 sa_projectDetails := sa_projectDetails s @ [project_snapshot r]\<rparr>
      in if js_le (variance (actualHrs r) (budgetHrs r)) thr
         then s'\<lparr>sa_successfulProjects := sa_successfulProjects s' + 1\<rparr>
         else s')"

definition sa_step ::
  "filters \<Rightarrow> jsnum \<Rightarrow> row \<Rightarrow> (string \<times> sa_acc) list \<times> bool \<Rightarrow> string \<Rightarrow>
   js_error + (string \<times> sa_acc) list \<times> bool" where
  "sa_step flt thr r st sa =
     (if \<not> sa_filter_passes flt sa then Inr st
      else (case upd_entry empty_sa (add_sa_project thr r) sa (fst st) of
              Inl e \<Rightarrow> Inl e
            | Inr m \<Rightarrow> Inr (m, True)))"

definition process_sas ::
  "filters \<Rightarrow> jsnum \<Rightarrow> row \<Rightarrow> (string \<times> sa_acc) list \<times> bool \<Rightarrow>
   js_error + (string \<times> sa_acc) list \<times> bool" where
  "process_sas flt thr r st =
     (let saField = str_or (Solution_Architect r) []
      in if saField \<noteq> [] \<and> trim saField \<noteq> [] \<and> 0 < budgetHrs r
         then forEach (sa_step flt thr r) st (name_list saField)
         else Inr st)"

record pass1_state =
  consultants :: "(string \<times> consultant_acc) list"
  architects :: "(string \<times> sa_acc) list"
  practiceProjects :: "string set"

text \<open>The body of the first \<^verbatim>\<open>data.forEach\<close>; \<^verbatim>\<open>isPracticeProject\<close> (the second
  component of the two loop states) starts false on every row and the job number joins
  \<^verbatim>\<open>practiceProjects\<close> when it ends true.\<close>

definition pass1_row :: "filters \<Rightarrow> jsnum \<Rightarrow> pass1_state \<Rightarrow> row \<Rightarrow> js_error + pass1_state" where
  "pass1_row flt thr st r =
     (case process_consultants flt thr r (consultants st, False) of
        Inl e \<Rightarrow> Inl e
      | Inr cp \<Rightarrow>
          (case process_sas flt thr r (architects st, snd cp) of
             Inl e \<Rightarrow> Inl e
           | Inr sp \<Rightarrow>
               Inr \<lparr>consultants = fst cp, architects = fst sp,
                    practiceProjects =
                      (if snd sp then insert (jobNumber r) (practiceProjects st)
                       else practiceProjects st)\<rparr>))"

definition pass1 :: "filters \<Rightarrow> jsnum \<Rightarrow> row list \<Rightarrow> js_error + pass1_state" where
  "pass1 flt thr data =
     forEach (pass1_row flt thr) \<lparr>consultants = [], architects = [], practiceProjects = {}\<rparr> data"

subsection \<open>Pass 2: customers\<close>

text \<open>One customer contribution (source lines 839 to 860, and again 876 to 897).\<close>

definition add_customer_project :: "jsnum \<Rightarrow> row \<Rightarrow> customer_acc \<Rightarrow> customer_acc" where
  "add_customer_project thr r c =
     (let v = variance (actualHrs r) (budgetHrs r);
          c' = c\<lparr>cu_projects := cu_projects c + 1,
                 cu_totalBudgetHrs := cu_totalBudgetHrs c + budgetHrs r,
                 cu_totalActualHrs := cu_totalActualHrs c + actualHrs r,
                 cu_totalVariance := js_add (cu_totalVariance c) (js_mul v (Fin 100)),
                 cu_projectDetails := cu_projectDetails c @ [customer_snapshot r]\<rparr>
      in if js_le v thr
         then c'\<lparr>cu_withinBudget := cu_withinBudget c' + 1\<rparr>
         else c'\<lparr>cu_overBudget := cu_overBudget c' + 1\<rparr>)"

record pass2_state =
  customers :: "(string \<times> customer_acc) list"
  allCustomers :: "(string \<times> customer_acc) list"

definition customerName :: "row \<Rightarrow> string" where
  "customerName r = str_or (Customer r) ''Unknown''"

definition pass2_row :: "jsnum \<Rightarrow> string set \<Rightarrow> pass2_state \<Rightarrow> row \<Rightarrow> js_error + pass2_state" where
  "pass2_row thr practice st r =
     (if customerName r \<noteq> [] \<and> trim (customerName r) \<noteq> [] \<and> 0 < budgetHrs r then
        (case upd_entry empty_customer (add_customer_project thr r) (customerName r)
                (allCustomers st) of
           Inl e \<Rightarrow> Inl e
         | Inr ac \<Rightarrow>
             (if jobNumber r \<in> practice
              then (case upd_entry empty_customer (add_customer_project thr r) (customerName r)
                           (customers st) of
                      Inl e \<Rightarrow> Inl e
                    | Inr c \<Rightarrow> Inr \<lparr>customers = c, allCustomers = ac\<rparr>)
              else Inr \<lparr>customers = customers st, allCustomers = ac\<rparr>))
      else Inr st)"

definition pass2 :: "jsnum \<Rightarrow> string set \<Rightarrow> row list \<Rightarrow> js_error + pass2_state" where
  "pass2 thr practice data =
     forEach (pass2_row thr practice) \<lparr>customers = [], allCustomers = []\<rparr> data"

section \<open>Derived metrics\<close>

text \<open>\<^verbatim>\<open>(a / b) * 100\<close> on two counters.\<close>

definition ratio_pct :: "nat \<Rightarrow> nat \<Rightarrow> jsnum" where
  "ratio_pct a b = js_mul (js_div (Fin (of_nat a)) (Fin (of_nat b))) (Fin 100)"

text \<open>
  The comparator sorts of the engine, as stable insertion sorts with the comparator of the
  source: \<^verbatim>\<open>xs.sort((a, b) => a - b)\<close> and \<^verbatim>\<open>xs.sort((a, b) => b.key - a.key)\<close>.
  With finite keys the comparator is a consistent order and every stable sort returns this
  list. A comparator result of NaN counts as "equal", as in JavaScript; with a NaN key the
  order JavaScript produces depends on its sorting algorithm, the list here is one such
  order, and no property below relies on it.
\<close>

fun insert_asc :: "jsnum \<Rightarrow> jsnum list \<Rightarrow> jsnum list" where
  "insert_asc x [] = [x]"
| "insert_asc x (y # ys) = (if js_lt y x then y # insert_asc x ys else x # y # ys)"

definition sort_numeric_asc :: "jsnum list \<Rightarrow> jsnum list" where
  "sort_numeric_asc xs = foldr insert_asc xs []"

fun insert_desc :: "('a \<Rightarrow> jsnum) \<Rightarrow> 'a \<Rightarrow> 'a list \<Rightarrow> 'a list" where
  "insert_desc key x [] = [x]"
| "insert_desc key x (y # ys) =
     (if js_lt (key x) (key y) then y # insert_desc key x ys else x # y # ys)"

definition sort_desc_by :: "('a \<Rightarrow> jsnum) \<Rightarrow> 'a list \<Rightarrow> 'a list" where
  "sort_desc_by key xs = foldr (insert_desc key) xs []"

subsection \<open>Consultant and solution-architect metrics\<close>

record consultant_metrics =
  cm_name :: string
  cm_projects :: nat
  cm_hours :: rat
  cm_successRate :: jsnum
  cm_efficiencyScore :: jsnum
  cm_withinBudget :: nat
  cm_overBudget :: nat
  cm_projectDetails :: "project_detail list"

definition consultant_metrics_of :: "string \<times> consultant_acc \<Rightarrow> consultant_metrics" where
  "consultant_metrics_of kv =
     (let name = fst kv; consultant = snd kv;
          successRate = ratio_pct (c_withinBudget consultant) (c_projects consultant);
          efficiencyScore = ratio_pct (c_withinBudget consultant) (c_projects consultant)
      in \<lparr>cm_name = name,
          cm_projects = c_projects consultant,
          cm_hours = c_totalHours consultant,
          cm_successRate = toFixed 1 successRate,
          cm_efficiencyScore = toFixed 1 efficiencyScore,
          cm_withinBudget = c_withinBudget consultant,
          cm_overBudget = c_overBudget consultant,
          cm_projectDetails = c_projectDetails consultant\<rparr>)"

definition consultantMetrics :: "(string \<times> consultant_acc) list \<Rightarrow> consultant_metrics list" where
  "consultantMetrics cs = map consultant_metrics_of cs"

record sa_metrics =
  sm_name :: string
  sm_projects :: nat
  sm_budgetedHours :: rat
  sm_actualHours :: rat
  sm_successRate :: jsnum
  sm_variance :: jsnum
  sm_projectDetails :: "project_detail list"

definition sa_metrics_of :: "string \<times> sa_acc \<Rightarrow> sa_metrics" where
  "sa_metrics_of kv =
     (let name = fst kv; sa = snd kv;
          successRate = ratio_pct (sa_successfulProjects sa) (sa_projects sa);
          v = js_mul (js_div (Fin (sa_totalActualHours sa - sa_totalBudgetedHours sa))
                             (Fin (sa_totalBudgetedHours sa))) (Fin 100)
      in \<lparr>sm_name = name,
          sm_projects = sa_projects sa,
          sm_budgetedHours = sa_totalBudgetedHours sa,
          sm_actualHours = sa_totalActualHours sa,
          sm_successRate = toFixed 1 successRate,
          sm_variance = toFixed 1 v,
          sm_projectDetails = sa_projectDetails sa\<rparr>)"

definition saMetrics :: "(string \<times> sa_acc) list \<Rightarrow> sa_metrics list" where
  "saMetrics ss = map sa_metrics_of ss"

subsection \<open>Customer metrics and risk scoring\<close>

record customer_metrics =
  cum_name :: string
  cum_projects :: nat
  cum_successRate :: jsnum
  cum_avgVariance :: jsnum
  cum_totalBudgetHrs :: rat
  cum_totalActualHrs :: rat
  cum_withinBudget :: nat
  cum_overBudget :: nat
  cum_projectDetails :: "customer_detail list"

definition customer_metrics_of :: "string \<times> customer_acc \<Rightarrow> customer_metrics" where
  "customer_metrics_of kv =
     (let name = fst kv; customer = snd kv;
          successRate = ratio_pct (cu_withinBudget customer) (cu_projects customer);
          avgVariance = js_div (cu_totalVariance customer) (Fin (of_nat (cu_projects customer)))
      in \<lparr>cum_name = name,
          cum_projects = cu_projects customer,
          cum_successRate = toFixed 1 successRate,
          cum_avgVariance = toFixed 1 avgVariance,
          cum_totalBudgetHrs = cu_totalBudgetHrs customer,
          cum_totalActualHrs = cu_totalActualHrs customer,
          cum_withinBudget = cu_withinBudget customer,
          cum_overBudget = cu_overBudget customer,
          cum_projectDetails = cu_projectDetails customer\<rparr>)"

definition practiceCustomerMetrics :: "(string \<times> customer_acc) list \<Rightarrow> customer_metrics list" where
  "practiceCustomerMetrics cs = sort_desc_by cum_successRate (map customer_metrics_of cs)"

definition allCustomerMetrics :: "(string \<times> customer_acc) list \<Rightarrow> customer_metrics list" where
  "allCustomerMetrics cs =
     sort_desc_by cum_successRate
       (filter (\<lambda>c. 3 \<le> cum_projects c) (map customer_metrics_of cs))"

text \<open>
  \<^verbatim>\<open>addRiskScoring\<close> (source lines 1169 to 1204). The three \<^verbatim>\<open>parseFloat\<close> calls read
  back the numbers the metrics hold.
\<close>

definition riskScore_of :: "customer_metrics \<Rightarrow> nat" where
  "riskScore_of customer =
     (let successRate = cum_successRate customer;
          s1 = (if js_lt successRate (Fin 50) then 4
                else if js_lt successRate (Fin 70) then 2
                else if js_lt successRate (Fin 85) then 1 else 0);
          s2 = (if 10 \<le> cum_projects customer then 0
                else if 5 \<le> cum_projects customer then 1 else 2);
          avgVariance = js_abs (cum_avgVariance customer);
          s3 = (if js_gt avgVariance (Fin 50) then 3
                else if js_gt avgVariance (Fin 30) then 2
                else if js_gt avgVariance (Fin 15) then 1 else 0);
          totalBudget = Fin (cum_totalBudgetHrs customer);
          s4 = (if js_gt totalBudget (Fin 5000) then 1
                else if js_gt totalBudget (Fin 2000) then 0 else 1)
      in s1 + s2 + s3 + s4)"

definition riskLevel_of :: "nat \<Rightarrow> string \<times> string" where
  "riskLevel_of riskScore =
     (if riskScore \<le> 2 then (''Low'', ''success'')
      else if riskScore \<le> 5 then (''Medium'', ''warning'')
      else if riskScore \<le> 8 then (''High'', ''danger'')
      else (''Critical'', ''dark''))"

record customer_risk = customer_metrics +
  riskScore :: nat
  riskLevel :: string
  riskColor :: string

definition risk_entry :: "customer_metrics \<Rightarrow> customer_risk" where
  "risk_entry customer =
     customer_metrics.extend customer
       (customer_risk.fields (riskScore_of customer)
          (fst (riskLevel_of (riskScore_of customer)))
          (snd (riskLevel_of (riskScore_of customer))))"

definition addRiskScoring :: "customer_metrics list \<Rightarrow> customer_risk list" where
  "addRiskScoring customerList = map risk_entry customerList"

subsection \<open>DAS+ analysis\<close>

text \<open>The score of one project snapshot (source lines 1026 to 1039). The snapshot holds the
  completion cell or \<open>0\<close>; \<^verbatim>\<open>project.completion || 0\<close> reads the same number from it, and
  the comparison and the subtraction coerce it to that number.\<close>

definition dasScore :: "project_detail \<Rightarrow> jsnum" where
  "dasScore project =
     (let budgetRatio = js_div (Fin (pd_actualHrs project)) (Fin (pd_budgetHrs project));
          reported = pd_completion project;
          completionRatio =
            (if pd_status project \<noteq> [] \<and>
                (js_includes (toLowerCase (pd_status project)) ''closed'' \<or>
                 js_includes (toLowerCase (pd_status project)) ''complete'')
             then Fin 1
             else if js_ge reported (Fin (95 / 100)) then Fin 1 else reported);
          score = js_sub (Fin 1) (js_abs (js_sub budgetRatio completionRatio))
      in Math_max (Fin 0) (Math_min (Fin 1) score))"

definition avgDAS :: "jsnum list \<Rightarrow> jsnum" where
  "avgDAS dasScores = js_div (foldl js_add (Fin 0) dasScores) (Fin (of_nat (length dasScores)))"

text \<open>\<^verbatim>\<open>sortedScores[Math.floor(sortedScores.length / 2)]\<close>; \<open>None\<close> is \<^verbatim>\<open>undefined\<close>.\<close>

definition medianDAS :: "jsnum list \<Rightarrow> jsnum option" where
  "medianDAS dasScores =
     (let sortedScores = sort_numeric_asc dasScores;
          i = length sortedScores div 2
      in if i < length sortedScores then Some (sortedScores ! i) else None)"

record das_row =
  das_name :: string
  das_projects :: nat
  das_avgDAS :: jsnum
  das_medianDAS :: jsnum
  das_lowCount :: nat
  das_highCount :: nat
  das_reviewCount :: nat

text \<open>One entry of \<^verbatim>\<open>dasAnalysis\<close>; \<^verbatim>\<open>medianDAS.toFixed(3)\<close> throws a TypeError when
  the median is \<^verbatim>\<open>undefined\<close>.\<close>

definition das_row_of :: "string \<times> consultant_acc \<Rightarrow> js_error + das_row" where
  "das_row_of kv =
     (let name = fst kv; consultant = snd kv;
          dasScores = map dasScore (c_projectDetails consultant)
      in case medianDAS dasScores of
           None \<Rightarrow> Inl TypeError
         | Some median \<Rightarrow>
             Inr \<lparr>das_name = name,
                  das_projects = c_projects consultant,
                  das_avgDAS = toFixed 3 (avgDAS dasScores),
                  das_medianDAS = toFixed 3 median,
                  das_lowCount = length (filter (\<lambda>score. js_lt score (Fin (75 / 100))) dasScores),
                  das_highCount = length (filter (\<lambda>score. js_ge score (Fin (85 / 100))) dasScores),
                  das_reviewCount =
                    length (filter (\<lambda>score. js_ge score (Fin (3 / 10)) \<and>
                                             js_le score (Fin (9 / 10))) dasScores)\<rparr>)"

fun collect :: "(js_error + 'a) list \<Rightarrow> js_error + 'a list" where
  "collect [] = Inr []"
| "collect (x # xs) =
     (case x of
        Inl e \<Rightarrow> Inl e
      | Inr v \<Rightarrow> (case collect xs of Inl e \<Rightarrow> Inl e | Inr vs \<Rightarrow> Inr (v # vs)))"

section \<open>Result assembler\<close>

text \<open>
  The object \<^verbatim>\<open>analyzeData\<close> returns, without its members \<^verbatim>\<open>saCombinations\<close>,
  \<^verbatim>\<open>saCustomerAnalysis\<close> and \<^verbatim>\<open>consultantOfQuarter\<close>: they are computed from the rows and
  from \<^verbatim>\<open>consultants\<close> without changing any accumulator, and none of the properties
  below speaks of them. The result is \<open>Inl\<close> when the function throws.
\<close>

record analysis =
  totalProjects :: nat
  a_consultants :: "consultant_metrics list"
  a_solutionArchitects :: "sa_metrics list"
  a_customers_practice :: "customer_risk list"
  a_customers_company :: "customer_risk list"
  a_dasAnalysis :: "das_row list"

definition analyzeData :: "row list \<Rightarrow> filters \<Rightarrow> config \<Rightarrow> js_error + analysis" where
  "analyzeData data flt cfg =
     (let thr = successThreshold cfg
      in case pass1 flt thr data of
           Inl e \<Rightarrow> Inl e
         | Inr p1 \<Rightarrow>
             (case pass2 thr (practiceProjects p1) data of
                Inl e \<Rightarrow> Inl e
              | Inr p2 \<Rightarrow>
                  (case collect (map das_row_of (consultants p1)) of
                     Inl e \<Rightarrow> Inl e
                   | Inr das \<Rightarrow>
                       Inr \<lparr>totalProjects = length data,
                            a_consultants =
                              sort_desc_by cm_efficiencyScore (consultantMetrics (consultants p1)),
                            a_solutionArchitects =
                              sort_desc_by sm_successRate (saMetrics (architects p1)),
                            a_customers_practice =
                              addRiskScoring (practiceCustomerMetrics (customers p2)),
                            a_customers_company =
                              addRiskScoring (allCustomerMetrics (allCustomers p2)),
                            a_dasAnalysis = sort_desc_by das_avgDAS das\<rparr>)))"

section \<open>Export serialiser\<close>

text \<open>
  The \<^verbatim>\<open>'consultants'\<close> case of \<^verbatim>\<open>generateCSV\<close> (source lines 1393 to 1398). A row of
  the report carries the text each template placeholder expands to.
\<close>

record consultant_report_row =
  rr_name :: string
  rr_projects :: string
  rr_hours :: string
  rr_efficiencyScore :: string
  rr_successRate :: string
  rr_withinBudget :: string
  rr_overBudget :: string

definition dq :: char where
  "dq = CHR 0x22"

definition nl :: char where
  "nl = CHR 0x0A"

definition csv_consultant_line :: "consultant_report_row \<Rightarrow> string" where
  "csv_consultant_line row =
     [dq] @ rr_name row @ [dq] @ '','' @ rr_projects row @ '','' @ rr_hours row @ '','' @
     rr_efficiencyScore row @ '','' @ rr_successRate row @ '','' @ rr_withinBudget row @ '','' @
     rr_overBudget row @ [nl]"

definition generateCSV_consultants :: "consultant_report_row list \<Rightarrow> string" where
  "generateCSV_consultants data =
     foldl (\<lambda>csv row. csv @ csv_consultant_line row)
       (''Consultant,Projects,Hours,Efficiency %,Success Rate %,Within Budget,Over Budget'' @ [nl])
       data"

text \<open>
  The quoted-field reader of the repository (the loop of \<^verbatim>\<open>loadExistingExclusions\<close>,
  source lines 1316 to 1336): a quote toggles \<^verbatim>\<open>inQuotes\<close>, a doubled quote inside quotes
  is one quote, a comma outside quotes ends the field; every field is trimmed.
\<close>

function parse_fields :: "string \<Rightarrow> string \<Rightarrow> bool \<Rightarrow> string list" where
  "parse_fields [] current inQuotes = [trim current]"
| "parse_fields (c # cs) current inQuotes =
     (if c = dq then
        (if inQuotes \<and> cs \<noteq> [] \<and> hd cs = dq
         then parse_fields (tl cs) (current @ [dq]) inQuotes
         else parse_fields cs current (\<not> inQuotes))
      else if c = CHR '','' \<and> \<not> inQuotes then trim current # parse_fields cs [] inQuotes
      else parse_fields cs (current @ [c]) inQuotes)"
  by pat_completeness auto
termination
  by (relation "measure (\<lambda>(s, c, q). length s)") auto

definition parse_csv_line :: "string \<Rightarrow> string list" where
  "parse_csv_line line = parse_fields line [] False"

text \<open>The escaping the specification asks of the serialiser: a field with a comma or a
  quote is wrapped in quotes, its quotes doubled.\<close>

definition double_quotes :: "string \<Rightarrow> string" where
  "double_quotes s = concat (map (\<lambda>c. if c = dq then [dq, dq] else [c]) s)"

definition csv_escape :: "string \<Rightarrow> string" where
  "csv_escape s =
     (if CHR '','' \<in> set s \<or> dq \<in> set s then [dq] @ double_quotes s @ [dq] else s)"

section \<open>Observations on the accumulators\<close>

text \<open>
  The contributions a row makes in pass 1: the consultant names, in the order listed, that
  survive the normaliser, pass the engineer filter and are not excluded for the row's job
  number; likewise the solution-architect names that pass their filter. Both are empty
  unless the budget is positive. The remaining functions read a counter of a named
  accumulator, 0 when the dictionary has no such key; \<open>customer_row\<close> is the guard of pass 2.
\<close>

definition accepted_consultants :: "filters \<Rightarrow> row \<Rightarrow> string list" where
  "accepted_consultants flt r =
     (if str_or (Resources_Engaged r) [] \<noteq> [] \<and> 0 < budgetHrs r
      then filter (\<lambda>n. engineer_filter_passes flt n \<and> \<not> is_excluded flt n (jobNumber r))
             (name_list (str_or (Resources_Engaged r) []))
      else [])"

definition accepted_sas :: "filters \<Rightarrow> row \<Rightarrow> string list" where
  "accepted_sas flt r =
     (if str_or (Solution_Architect r) [] \<noteq> [] \<and> trim (str_or (Solution_Architect r) []) \<noteq> [] \<and>
         0 < budgetHrs r
      then filter (sa_filter_passes flt) (name_list (str_or (Solution_Architect r) []))
      else [])"

definition projects_of :: "(string \<times> consultant_acc) list \<Rightarrow> string \<Rightarrow> nat" where
  "projects_of m n = (case map_of m n of None \<Rightarrow> 0 | Some c \<Rightarrow> c_projects c)"

definition hours_of :: "(string \<times> consultant_acc) list \<Rightarrow> string \<Rightarrow> rat" where
  "hours_of m n = (case map_of m n of None \<Rightarrow> 0 | Some c \<Rightarrow> c_totalHours c)"

definition sa_projects_of :: "(string \<times> sa_acc) list \<Rightarrow> string \<Rightarrow> nat" where
  "sa_projects_of m n = (case map_of m n of None \<Rightarrow> 0 | Some s \<Rightarrow> sa_projects s)"

definition customer_projects :: "(string \<times> customer_acc) list \<Rightarrow> string \<Rightarrow> nat" where
  "customer_projects m n = (case map_of m n of None \<Rightarrow> 0 | Some c \<Rightarrow> cu_projects c)"

definition customer_row :: "row \<Rightarrow> bool" where
  "customer_row r = (trim (customerName r) \<noteq> [] \<and> 0 < budgetHrs r)"


section \<open>Invariants of the accumulators\<close>

text \<open>What every snapshot and every accumulator built by the two passes satisfies.\<close>

definition detail_ok :: "project_detail \<Rightarrow> bool" where
  "detail_ok d =
     (0 < pd_budgetHrs d \<and>
      pd_variance d =
        Fin (round_half_away 1 ((pd_actualHrs d - pd_budgetHrs d) / pd_budgetHrs d * 100)))"

definition customer_detail_ok :: "customer_detail \<Rightarrow> bool" where
  "customer_detail_ok d =
     (0 < cd_budgetHrs d \<and>
      cd_variance d =
        Fin (round_half_away 1 ((cd_actualHrs d - cd_budgetHrs d) / cd_budgetHrs d * 100)))"

definition consultant_inv :: "consultant_acc \<Rightarrow> bool" where
  "consultant_inv c =
     (1 \<le> c_projects c \<and> c_projects c = c_withinBudget c + c_overBudget c \<and>
      c_projects c = length (c_projectDetails c) \<and>
      (\<forall>d \<in> set (c_projectDetails c). detail_ok d))"

definition sa_inv :: "sa_acc \<Rightarrow> bool" where
  "sa_inv s =
     (1 \<le> sa_projects s \<and> sa_projects s = length (sa_projectDetails s) \<and>
      sa_successfulProjects s \<le> sa_projects s \<and> 0 < sa_totalBudgetedHours s \<and>
      (\<forall>d \<in> set (sa_projectDetails s). detail_ok d))"

definition customer_inv :: "customer_acc \<Rightarrow> bool" where
  "customer_inv c =
     (1 \<le> cu_projects c \<and> cu_projects c = cu_withinBudget c + cu_overBudget c \<and>
      cu_projects c = length (cu_projectDetails c) \<and> is_Fin (cu_totalVariance c) \<and>
      (\<forall>d \<in> set (cu_projectDetails c). customer_detail_ok d))"

definition pass1_inv :: "pass1_state \<Rightarrow> bool" where
  "pass1_inv st =
     ((\<forall>kv \<in> set (consultants st). consultant_inv (snd kv)) \<and>
      (\<forall>kv \<in> set (architects st). sa_inv (snd kv)))"

definition pass2_inv :: "pass2_state \<Rightarrow> bool" where
  "pass2_inv st =
     ((\<forall>kv \<in> set (customers st). customer_inv (snd kv)) \<and>
      (\<forall>kv \<in> set (allCustomers st). customer_inv (snd kv)))"

section \<open>Sample inputs\<close>

text \<open>Concrete filters, configurations, rows and report rows on which the properties are
  evaluated; \<open>row_J1\<close> is the end-to-end example of the specification.\<close>

definition no_filters :: filters where
  "no_filters = \<lparr>engineers = None, solutionArchitects = None, exclusions = None\<rparr>"

definition jane_only :: filters where
  "jane_only = \<lparr>engineers = Some [''Jane Doe''], solutionArchitects = None, exclusions = None\<rparr>"

definition default_config :: config where
  "default_config = \<lparr>thresholds = Some \<lparr>success_threshold = Num (Fin (3 / 10))\<rparr>\<rparr>"


definition row_J1 :: row where
  "row_J1 =
     \<lparr>Budget_Hrs = Some 100, Total_Hrs_Posted = Some 120, Job_Number = Some ''J1'',
      Resources_Engaged = Some ''Alice'', Solution_Architect = Some ''Sam Stone'',
      Customer = Some ''Acme'', Job_Description = None, Project_Status = Some ''Closed'',
      Project_Complete = Truthy (Fin 1)\<rparr>"

definition row_zero_budget :: row where
  "row_zero_budget =
     \<lparr>Budget_Hrs = Some 0, Total_Hrs_Posted = Some 10, Job_Number = Some ''J0'',
      Resources_Engaged = Some ''Alice'', Solution_Architect = Some ''Sam Stone'',
      Customer = Some ''Acme'', Job_Description = None, Project_Status = None,
      Project_Complete = Falsy\<rparr>"

definition sample_row :: "string \<Rightarrow> string option \<Rightarrow> string option \<Rightarrow> rat \<Rightarrow> rat \<Rightarrow> row" where
  "sample_row job resources customer budget actual =
     \<lparr>Budget_Hrs = Some budget, Total_Hrs_Posted = Some actual, Job_Number = Some job,
      Resources_Engaged = resources, Solution_Architect = None,
      Customer = customer, Job_Description = None, Project_Status = None,
      Project_Complete = Falsy\<rparr>"

definition row_blank_customer :: row where
  "row_blank_customer = sample_row ''J7'' (Some ''Alice'') (Some '' '') 100 90"

definition row_no_customer :: row where
  "row_no_customer = sample_row ''J9'' (Some ''Alice'') None 100 90"

definition row_A_B :: row where
  "row_A_B = sample_row ''J8'' (Some ''A, B'') (Some ''Acme'') 10 10"

definition row_Al_Bo :: row where
  "row_Al_Bo = sample_row ''J8'' (Some ''Al, Bo'') (Some ''Acme'') 10 10"

definition row_john :: row where
  "row_john = sample_row ''J6'' (Some ''John Doe'') (Some ''Acme'') 100 90"

definition acme_row :: "string \<Rightarrow> rat \<Rightarrow> row" where
  "acme_row job actual =
     \<lparr>Budget_Hrs = Some 400, Total_Hrs_Posted = Some actual, Job_Number = Some job,
      Resources_Engaged = Some ''Alice'', Solution_Architect = None,
      Customer = Some ''Acme'', Job_Description = None, Project_Status = Some ''Open'',
      Project_Complete = Truthy (Fin (1 / 2))\<rparr>"

definition rows_budget_2000 :: "row list" where
  "rows_budget_2000 =
     [acme_row ''J1'' 400, acme_row ''J2'' 400, acme_row ''J3'' 400, acme_row ''J4'' 400,
      acme_row ''J5'' 600]"

definition risk_view :: "customer_risk \<Rightarrow> string \<times> nat \<times> jsnum \<times> jsnum \<times> rat \<times> nat \<times> string" where
  "risk_view c =
     (cum_name c, cum_projects c, cum_successRate c, cum_avgVariance c, cum_totalBudgetHrs c,
      riskScore c, riskLevel c)"

definition report_row_quoted :: consultant_report_row where
  "report_row_quoted =
     \<lparr>rr_name = ''Doe, '' @ [dq] @ ''JD'' @ [dq] @ '' Jane'', rr_projects = ''3'',
      rr_hours = ''120'', rr_efficiencyScore = ''66.7'', rr_successRate = ''66.7'',
      rr_withinBudget = ''2'', rr_overBudget = ''1''\<rparr>"

definition report_row_plain :: consultant_report_row where
  "report_row_plain =
     \<lparr>rr_name = ''Alice'', rr_projects = ''1'', rr_hours = ''120'',
      rr_efficiencyScore = ''100.0'', rr_successRate = ''100.0'', rr_withinBudget = ''1'',
      rr_overBudget = ''0''\<rparr>"


definition row_constructor :: row where
  "row_constructor = sample_row ''J3'' (Some ''constructor'') (Some ''Acme'') 100 90"

definition row_bco :: row where
  "row_bco = sample_row ''J1'' (Some ''John Doe'') (Some ''Bco'') 100 90"

definition row_aco :: row where
  "row_aco = sample_row ''J1'' (Some ''Jane Doe'') (Some ''Aco'') 100 90"

definition row_customer_constructor :: row where
  "row_customer_constructor = sample_row ''J4'' (Some ''Alice'') (Some ''constructor'') 100 90"

definition row_constructor_Al :: row where
  "row_constructor_Al = sample_row ''J8'' (Some ''constructor, Al'') (Some ''Acme'') 10 10"

section \<open>Properties\<close>

subsection \<open>Strings\<close>

lemma js_includes_sublist: "js_includes s t = sublist t s"
  by (induction s) (auto simp: sublist_Cons_right)

lemma js_ws_toLowerCase_char: "js_ws (toLowerCase_char c) = js_ws c"
proof (cases "map_of (zip ''ABCDEFGHIJKLMNOPQRSTUVWXYZ'' ''abcdefghijklmnopqrstuvwxyz'') c")
  case None
  then show ?thesis by (simp add: toLowerCase_char_def)
next
  case (Some d)
  then have "c \<in> set ''ABCDEFGHIJKLMNOPQRSTUVWXYZ''"
    by (auto split: if_splits)
  moreover have "d \<in> set ''abcdefghijklmnopqrstuvwxyz''"
    using Some by (auto split: if_splits)
  ultimately show ?thesis
    using Some by (auto simp: toLowerCase_char_def js_ws_def)
qed

lemma dropWhile_ws_toLowerCase:
  "dropWhile js_ws (toLowerCase s) = toLowerCase (dropWhile js_ws s)"
  by (induction s) (simp_all add: toLowerCase_def js_ws_toLowerCase_char)

lemma trim_toLowerCase: "trim (toLowerCase s) = toLowerCase (trim s)"
proof -
  have r: "rev (toLowerCase t) = toLowerCase (rev t)" for t
    by (simp add: toLowerCase_def rev_map)
  show ?thesis
    by (simp add: trim_def dropWhile_ws_toLowerCase r)
qed

subsection \<open>Allow-list matching\<close>

lemma engineer_filter_spec:
  "engineer_filter_passes flt name = passesAllowList name (engineers flt)"
  by (cases "engineers flt")
     (auto simp: engineer_filter_passes_def passesAllowList_def list_ex_iff
                 js_includes_sublist trim_toLowerCase Let_def)

lemma sa_filter_spec:
  "sa_filter_passes flt name = passesAllowList name (solutionArchitects flt)"
  by (cases "solutionArchitects flt")
     (auto simp: sa_filter_passes_def passesAllowList_def list_ex_iff
                 js_includes_sublist trim_toLowerCase Let_def)

text \<open>
  Claim C3. Both filters of pass 1, the engineer one and the solution-architect one,
  are the allow-list rule of the specification: a missing or empty list admits every
  name, and otherwise a name passes exactly when some entry equals it, is inside it or
  contains it, after trimming and lower-casing. With the list \<open>[Jane Doe]\<close> the names
  \<open>Jane Doe Jr\<close> and \<open>Jane\<close> pass and \<open>John Doe\<close> does not.
\<close>

theorem allow_list_matching:
  "engineer_filter_passes flt name = passesAllowList name (engineers flt) \<and>
   sa_filter_passes flt name = passesAllowList name (solutionArchitects flt) \<and>
   passesAllowList name None \<and> passesAllowList name (Some []) \<and>
   (\<forall>f. engineers f = Some [''Jane Doe''] \<longrightarrow>
      engineer_filter_passes f ''Jane Doe Jr'' \<and> engineer_filter_passes f ''Jane'' \<and>
      \<not> engineer_filter_passes f ''John Doe'') \<and>
   (\<forall>f. solutionArchitects f = Some [''Jane Doe''] \<longrightarrow>
      sa_filter_passes f ''Jane Doe Jr'' \<and> sa_filter_passes f ''Jane'' \<and>
      \<not> sa_filter_passes f ''John Doe'')"
proof -
  have ex_eng: "engineer_filter_passes f ''Jane Doe Jr'' \<and> engineer_filter_passes f ''Jane'' \<and>
      \<not> engineer_filter_passes f ''John Doe''" if "engineers f = Some [''Jane Doe'']" for f
    using that
    by (simp add: engineer_filter_passes_def toLowerCase_def toLowerCase_char_def
                  trim_def js_ws_def)
  have ex_sa: "sa_filter_passes f ''Jane Doe Jr'' \<and> sa_filter_passes f ''Jane'' \<and>
      \<not> sa_filter_passes f ''John Doe''" if "solutionArchitects f = Some [''Jane Doe'']" for f
    using that
    by (simp add: sa_filter_passes_def toLowerCase_def toLowerCase_char_def
                  trim_def js_ws_def)
  show ?thesis
    using ex_eng ex_sa
    by (simp add: engineer_filter_spec sa_filter_spec passesAllowList_def)
qed

theorem allow_list_matching_witness:
  "engineer_filter_passes
     \<lparr>engineers = Some [''Jane Doe''], solutionArchitects = None, exclusions = None\<rparr>
     ''Jane Doe Jr'' \<and>
   \<not> engineer_filter_passes
     \<lparr>engineers = Some [''Jane Doe''], solutionArchitects = None, exclusions = None\<rparr>
     ''John Doe'' \<and>
   sa_filter_passes
     \<lparr>engineers = None, solutionArchitects = Some [''Jane Doe''], exclusions = None\<rparr>
     ''Jane'' \<and>
   \<not> sa_filter_passes
     \<lparr>engineers = None, solutionArchitects = Some [''Jane Doe''], exclusions = None\<rparr>
     ''John Doe''"
  using allow_list_matching
    [of "\<lparr>engineers = Some [''Jane Doe''], solutionArchitects = None, exclusions = None\<rparr>"
        "''Jane''"]
    allow_list_matching
    [of "\<lparr>engineers = None, solutionArchitects = Some [''Jane Doe''], exclusions = None\<rparr>"
        "''Jane''"]
  by simp

subsection \<open>Invariants of the two passes\<close>

lemma forEach_invariant:
  assumes "forEach f s xs = Inr t" and "P s"
    and "\<And>s x t. P s \<Longrightarrow> x \<in> set xs \<Longrightarrow> f s x = Inr t \<Longrightarrow> P t"
  shows "P t"
  using assms
proof (induction xs arbitrary: s)
  case Nil
  then show ?case by simp
next
  case (Cons x xs)
  from Cons.prems(1) obtain s' where s': "f s x = Inr s'" "forEach f s' xs = Inr t"
    by (auto split: sum.splits)
  have "P s'"
    by (rule Cons.prems(3) [OF Cons.prems(2) _ s'(1)]) simp
  show ?case
  proof (rule Cons.IH [OF s'(2) \<open>P s'\<close>])
    fix u y v
    assume "P u" "y \<in> set xs" "f u y = Inr v"
    then show "P v" by (intro Cons.prems(3) [of u y v]) simp_all
  qed
qed

lemma upd_entry_Inr:
  "upd_entry init f k m = Inr m' \<Longrightarrow> m' = put_entry init f k m \<and> k \<notin> set prototype_keys"
  by (auto simp: upd_entry_def split: if_splits)

lemma put_entry_values:
  assumes "\<forall>kv \<in> set m. P (snd kv)" and "\<And>v. P v \<Longrightarrow> P (f v)" and "P (f init)"
  shows "\<forall>kv \<in> set (put_entry init f k m). P (snd kv)"
  using assms(1) by (induction m) (fastforce simp: assms(2,3) split: if_splits)+

lemma variance_finite: "0 < b \<Longrightarrow> variance a b = Fin ((a - b) / b)"
  by (simp add: variance_def)

lemma snapshot_ok: "0 < budgetHrs r \<Longrightarrow> detail_ok (project_snapshot r)"
  by (simp add: detail_ok_def project_snapshot_def variance_finite)

lemma add_consultant_inv:
  assumes "0 < budgetHrs r" and "consultant_inv c"
  shows "consultant_inv (add_consultant_project thr r c)"
  using snapshot_ok [OF assms(1)] assms(2)
  by (auto simp: consultant_inv_def add_consultant_project_def Let_def)

lemma add_consultant_inv_first:
  assumes "0 < budgetHrs r"
  shows "consultant_inv (add_consultant_project thr r empty_consultant)"
  using snapshot_ok [OF assms(1)]
  by (simp add: consultant_inv_def add_consultant_project_def empty_consultant_def Let_def)

lemma consultant_step_Inr:
  assumes "consultant_step flt thr r st n = Inr t"
  shows "t = (if engineer_filter_passes flt n \<and> \<not> is_excluded flt n (jobNumber r)
              then (put_entry empty_consultant (add_consultant_project thr r) n (fst st), True)
              else st)"
    and "engineer_filter_passes flt n \<and> \<not> is_excluded flt n (jobNumber r) \<longrightarrow>
         n \<notin> set prototype_keys"
  using assms
  by (auto simp: consultant_step_def upd_entry_def split: if_splits sum.splits)

lemma sa_step_Inr:
  assumes "sa_step flt thr r st n = Inr t"
  shows "t = (if sa_filter_passes flt n
              then (put_entry empty_sa (add_sa_project thr r) n (fst st), True) else st)"
    and "sa_filter_passes flt n \<longrightarrow> n \<notin> set prototype_keys"
  using assms
  by (auto simp: sa_step_def upd_entry_def split: if_splits sum.splits)

lemma consultant_step_inv:
  assumes "0 < budgetHrs r" and "\<forall>kv \<in> set (fst st). consultant_inv (snd kv)"
    and "consultant_step flt thr r st n = Inr t"
  shows "\<forall>kv \<in> set (fst t). consultant_inv (snd kv)"
proof (cases "engineer_filter_passes flt n \<and> \<not> is_excluded flt n (jobNumber r)")
  case True
  have "\<forall>kv \<in> set (put_entry empty_consultant (add_consultant_project thr r) n (fst st)).
          consultant_inv (snd kv)"
    using assms(2) add_consultant_inv [OF assms(1)] add_consultant_inv_first [OF assms(1)]
    by (rule put_entry_values)
  with True consultant_step_Inr(1) [OF assms(3)] show ?thesis by simp
next
  case False
  with assms(2) consultant_step_Inr(1) [OF assms(3)] show ?thesis by simp
qed

lemma process_consultants_skip:
  "\<not> (str_or (Resources_Engaged r) [] \<noteq> [] \<and> 0 < budgetHrs r) \<Longrightarrow>
   process_consultants flt thr r st = Inr st"
  by (auto simp: process_consultants_def Let_def)

lemma process_consultants_run:
  "str_or (Resources_Engaged r) [] \<noteq> [] \<Longrightarrow> 0 < budgetHrs r \<Longrightarrow>
   process_consultants flt thr r st =
     forEach (consultant_step flt thr r) st (name_list (str_or (Resources_Engaged r) []))"
  by (simp add: process_consultants_def Let_def)

lemma process_consultants_inv:
  assumes "\<forall>kv \<in> set (fst st). consultant_inv (snd kv)"
    and "process_consultants flt thr r st = Inr t"
  shows "\<forall>kv \<in> set (fst t). consultant_inv (snd kv)"
proof (cases "str_or (Resources_Engaged r) [] \<noteq> [] \<and> 0 < budgetHrs r")
  case True
  then have b: "0 < budgetHrs r" by simp
  from True assms(2)
  have f: "forEach (consultant_step flt thr r) st (name_list (str_or (Resources_Engaged r) [])) =
      Inr t"
    by (simp add: process_consultants_run)
  show ?thesis
    by (rule forEach_invariant [OF f, where P = "\<lambda>s. \<forall>kv \<in> set (fst s). consultant_inv (snd kv)"])
       (use assms(1) consultant_step_inv [OF b] in blast)+
next
  case False
  with assms show ?thesis by (simp add: process_consultants_skip)
qed

lemma add_sa_inv:
  assumes "0 < budgetHrs r" and "sa_inv s"
  shows "sa_inv (add_sa_project thr r s)"
  using snapshot_ok [OF assms(1)] assms
  by (auto simp: sa_inv_def add_sa_project_def Let_def)

lemma add_sa_inv_first:
  assumes "0 < budgetHrs r"
  shows "sa_inv (add_sa_project thr r empty_sa)"
  using snapshot_ok [OF assms(1)] assms
  by (simp add: sa_inv_def add_sa_project_def empty_sa_def Let_def)

lemma sa_step_inv:
  assumes "0 < budgetHrs r" and "\<forall>kv \<in> set (fst st). sa_inv (snd kv)"
    and "sa_step flt thr r st n = Inr t"
  shows "\<forall>kv \<in> set (fst t). sa_inv (snd kv)"
proof (cases "sa_filter_passes flt n")
  case True
  have "\<forall>kv \<in> set (put_entry empty_sa (add_sa_project thr r) n (fst st)). sa_inv (snd kv)"
    using assms(2) add_sa_inv [OF assms(1)] add_sa_inv_first [OF assms(1)]
    by (rule put_entry_values)
  with True sa_step_Inr(1) [OF assms(3)] show ?thesis by simp
next
  case False
  with assms(2) sa_step_Inr(1) [OF assms(3)] show ?thesis by simp
qed

lemma process_sas_skip:
  "\<not> (str_or (Solution_Architect r) [] \<noteq> [] \<and> trim (str_or (Solution_Architect r) []) \<noteq> [] \<and>
      0 < budgetHrs r) \<Longrightarrow>
   process_sas flt thr r st = Inr st"
  by (auto simp: process_sas_def Let_def)

lemma process_sas_run:
  "str_or (Solution_Architect r) [] \<noteq> [] \<Longrightarrow> trim (str_or (Solution_Architect r) []) \<noteq> [] \<Longrightarrow>
   0 < budgetHrs r \<Longrightarrow>
   process_sas flt thr r st =
     forEach (sa_step flt thr r) st (name_list (str_or (Solution_Architect r) []))"
  by (simp add: process_sas_def Let_def)

lemma process_sas_inv:
  assumes "\<forall>kv \<in> set (fst st). sa_inv (snd kv)"
    and "process_sas flt thr r st = Inr t"
  shows "\<forall>kv \<in> set (fst t). sa_inv (snd kv)"
proof (cases "str_or (Solution_Architect r) [] \<noteq> [] \<and>
              trim (str_or (Solution_Architect r) []) \<noteq> [] \<and> 0 < budgetHrs r")
  case True
  then have b: "0 < budgetHrs r" by simp
  from True assms(2)
  have f: "forEach (sa_step flt thr r) st (name_list (str_or (Solution_Architect r) [])) = Inr t"
    by (simp add: process_sas_run)
  show ?thesis
    by (rule forEach_invariant [OF f, where P = "\<lambda>s. \<forall>kv \<in> set (fst s). sa_inv (snd kv)"])
       (use assms(1) sa_step_inv [OF b] in blast)+
next
  case False
  with assms show ?thesis by (simp add: process_sas_skip)
qed

lemma pass1_row_Inr:
  assumes "pass1_row flt thr st r = Inr t"
  obtains cp sp where
    "process_consultants flt thr r (consultants st, False) = Inr cp"
    "process_sas flt thr r (architects st, snd cp) = Inr sp"
    "consultants t = fst cp" "architects t = fst sp"
    "practiceProjects t =
       (if snd sp then insert (jobNumber r) (practiceProjects st) else practiceProjects st)"
  using assms by (auto simp: pass1_row_def split: sum.splits)

lemma pass1_row_inv:
  assumes "pass1_inv st" and "pass1_row flt thr st r = Inr t"
  shows "pass1_inv t"
proof -
  from assms(2) obtain cp sp where
    c: "process_consultants flt thr r (consultants st, False) = Inr cp"
    and s: "process_sas flt thr r (architects st, snd cp) = Inr sp"
    and t: "consultants t = fst cp" "architects t = fst sp"
    by (rule pass1_row_Inr)
  have "\<forall>kv \<in> set (fst cp). consultant_inv (snd kv)"
    by (rule process_consultants_inv [OF _ c]) (use assms(1) in \<open>simp add: pass1_inv_def\<close>)
  moreover have "\<forall>kv \<in> set (fst sp). sa_inv (snd kv)"
    by (rule process_sas_inv [OF _ s]) (use assms(1) in \<open>simp add: pass1_inv_def\<close>)
  ultimately show ?thesis
    unfolding pass1_inv_def t by blast
qed

lemma pass1_inv: "pass1 flt thr data = Inr t \<Longrightarrow> pass1_inv t"
  unfolding pass1_def
proof (erule forEach_invariant)
  show "pass1_inv \<lparr>consultants = [], architects = [], practiceProjects = {}\<rparr>"
    by (simp add: pass1_inv_def)
qed (rule pass1_row_inv)

lemma budget_nonpos_pass1: "budgetHrs r \<le> 0 \<Longrightarrow> pass1_row flt thr st r = Inr st"
  by (simp add: pass1_row_def process_consultants_skip process_sas_skip)

lemma budget_nonpos_pass2: "budgetHrs r \<le> 0 \<Longrightarrow> pass2_row thr practice st r = Inr st"
  by (simp add: pass2_row_def)

lemma customer_snapshot_ok: "0 < budgetHrs r \<Longrightarrow> customer_detail_ok (customer_snapshot r)"
  by (simp add: customer_detail_ok_def customer_snapshot_def variance_finite)

lemma add_customer_inv:
  assumes "0 < budgetHrs r" and "customer_inv c"
  shows "customer_inv (add_customer_project thr r c)"
  using customer_snapshot_ok [OF assms(1)] assms
  by (cases "cu_totalVariance c")
     (auto simp: customer_inv_def add_customer_project_def Let_def variance_finite)

lemma add_customer_inv_first:
  assumes "0 < budgetHrs r"
  shows "customer_inv (add_customer_project thr r empty_customer)"
  using customer_snapshot_ok [OF assms(1)] assms
  by (simp add: customer_inv_def add_customer_project_def empty_customer_def Let_def variance_finite)

lemma pass2_row_Inr:
  assumes "pass2_row thr practice st r = Inr t"
  shows "allCustomers t =
      (if trim (customerName r) \<noteq> [] \<and> 0 < budgetHrs r
       then put_entry empty_customer (add_customer_project thr r) (customerName r) (allCustomers st)
       else allCustomers st)"
    and "customers t =
      (if trim (customerName r) \<noteq> [] \<and> 0 < budgetHrs r \<and> jobNumber r \<in> practice
       then put_entry empty_customer (add_customer_project thr r) (customerName r) (customers st)
       else customers st)"
    and "trim (customerName r) \<noteq> [] \<and> 0 < budgetHrs r \<longrightarrow> customerName r \<notin> set prototype_keys"
proof -
  have n: "trim (customerName r) \<noteq> [] \<Longrightarrow> customerName r \<noteq> []"
    by (auto simp: trim_def)
  show "allCustomers t =
      (if trim (customerName r) \<noteq> [] \<and> 0 < budgetHrs r
       then put_entry empty_customer (add_customer_project thr r) (customerName r) (allCustomers st)
       else allCustomers st)"
    using assms n by (auto simp: pass2_row_def upd_entry_def split: if_splits sum.splits)
  show "customers t =
      (if trim (customerName r) \<noteq> [] \<and> 0 < budgetHrs r \<and> jobNumber r \<in> practice
       then put_entry empty_customer (add_customer_project thr r) (customerName r) (customers st)
       else customers st)"
    using assms n by (auto simp: pass2_row_def upd_entry_def split: if_splits sum.splits)
  show "trim (customerName r) \<noteq> [] \<and> 0 < budgetHrs r \<longrightarrow> customerName r \<notin> set prototype_keys"
    using assms n by (auto simp: pass2_row_def upd_entry_def split: if_splits sum.splits)
qed

lemma pass2_row_inv:
  assumes "pass2_inv st" and "pass2_row thr practice st r = Inr t"
  shows "pass2_inv t"
proof (cases "0 < budgetHrs r")
  case True
  have a: "\<forall>kv \<in> set (put_entry empty_customer (add_customer_project thr r) k m).
             customer_inv (snd kv)"
    if "\<forall>kv \<in> set m. customer_inv (snd kv)" for k m
    using that add_customer_inv [OF True] add_customer_inv_first [OF True]
    by (rule put_entry_values)
  have c: "\<forall>kv \<in> set (customers st). customer_inv (snd kv)"
    and ac: "\<forall>kv \<in> set (allCustomers st). customer_inv (snd kv)"
    using assms(1) by (simp_all add: pass2_inv_def)
  show ?thesis
    unfolding pass2_inv_def pass2_row_Inr(1,2) [OF assms(2)]
    using c ac a [OF c] a [OF ac] by simp
next
  case False
  with assms show ?thesis by (simp add: budget_nonpos_pass2)
qed

lemma pass2_inv: "pass2 thr practice data = Inr t \<Longrightarrow> pass2_inv t"
  unfolding pass2_def
proof (erule forEach_invariant)
  show "pass2_inv \<lparr>customers = [], allCustomers = []\<rparr>"
    by (simp add: pass2_inv_def)
qed (rule pass2_row_inv)

text \<open>
  Claim C1. A row whose budget cell reads as zero, or does not read as a number, leaves
  the consultant and solution-architect accumulators, the practice set and both customer
  maps exactly as they were, whatever its actual hours, and does not throw. Every
  snapshot stored by either pass (one is stored at each place the variance is computed)
  has positive budget hours, so the variance of its hours is a finite number: the division
  by zero does not occur.
\<close>

theorem budget_zero_exclusion:
  "(Budget_Hrs r = None \<or> Budget_Hrs r = Some 0 \<longrightarrow>
      pass1_row flt thr st1 r = Inr st1 \<and> pass2_row thr practice st2 r = Inr st2) \<and>
   (pass1 flt thr data = Inr s1 \<longrightarrow>
      (\<forall>kv \<in> set (consultants s1). \<forall>d \<in> set (c_projectDetails (snd kv)).
         0 < pd_budgetHrs d \<and> is_Fin (variance (pd_actualHrs d) (pd_budgetHrs d)) \<and>
         is_Fin (pd_variance d)) \<and>
      (\<forall>kv \<in> set (architects s1). \<forall>d \<in> set (sa_projectDetails (snd kv)).
         0 < pd_budgetHrs d \<and> is_Fin (variance (pd_actualHrs d) (pd_budgetHrs d)) \<and>
         is_Fin (pd_variance d))) \<and>
   (pass2 thr practice data = Inr s2 \<longrightarrow>
      (\<forall>kv \<in> set (customers s2). \<forall>d \<in> set (cu_projectDetails (snd kv)).
         0 < cd_budgetHrs d \<and> is_Fin (variance (cd_actualHrs d) (cd_budgetHrs d)) \<and>
         is_Fin (cd_variance d)) \<and>
      (\<forall>kv \<in> set (allCustomers s2). \<forall>d \<in> set (cu_projectDetails (snd kv)).
         0 < cd_budgetHrs d \<and> is_Fin (variance (cd_actualHrs d) (cd_budgetHrs d)) \<and>
         is_Fin (cd_variance d)))"
proof -
  have z: "budgetHrs r \<le> 0" if "Budget_Hrs r = None \<or> Budget_Hrs r = Some 0"
    using that by (auto simp: budgetHrs_def num_or_0_def)
  have d: "0 < pd_budgetHrs d \<and> is_Fin (variance (pd_actualHrs d) (pd_budgetHrs d)) \<and>
      is_Fin (pd_variance d)" if "detail_ok d" for d
    using that by (simp add: detail_ok_def variance_finite)
  have cd: "0 < cd_budgetHrs d \<and> is_Fin (variance (cd_actualHrs d) (cd_budgetHrs d)) \<and>
      is_Fin (cd_variance d)" if "customer_detail_ok d" for d
    using that by (simp add: customer_detail_ok_def variance_finite)
  have c1: "pass1_row flt thr st1 r = Inr st1 \<and> pass2_row thr practice st2 r = Inr st2"
    if "Budget_Hrs r = None \<or> Budget_Hrs r = Some 0"
    using z [OF that] by (simp add: budget_nonpos_pass1 budget_nonpos_pass2)
  have c2: "(\<forall>kv \<in> set (consultants s1). \<forall>d \<in> set (c_projectDetails (snd kv)).
         0 < pd_budgetHrs d \<and> is_Fin (variance (pd_actualHrs d) (pd_budgetHrs d)) \<and>
         is_Fin (pd_variance d)) \<and>
      (\<forall>kv \<in> set (architects s1). \<forall>d \<in> set (sa_projectDetails (snd kv)).
         0 < pd_budgetHrs d \<and> is_Fin (variance (pd_actualHrs d) (pd_budgetHrs d)) \<and>
         is_Fin (pd_variance d))"
    if "pass1 flt thr data = Inr s1"
    using pass1_inv [OF that] d unfolding pass1_inv_def consultant_inv_def sa_inv_def by blast
  have c3: "(\<forall>kv \<in> set (customers s2). \<forall>d \<in> set (cu_projectDetails (snd kv)).
         0 < cd_budgetHrs d \<and> is_Fin (variance (cd_actualHrs d) (cd_budgetHrs d)) \<and>
         is_Fin (cd_variance d)) \<and>
      (\<forall>kv \<in> set (allCustomers s2). \<forall>d \<in> set (cu_projectDetails (snd kv)).
         0 < cd_budgetHrs d \<and> is_Fin (variance (cd_actualHrs d) (cd_budgetHrs d)) \<and>
         is_Fin (cd_variance d))"
    if "pass2 thr practice data = Inr s2"
    using pass2_inv [OF that] cd unfolding pass2_inv_def customer_inv_def by blast
  show ?thesis
    using c1 c2 c3 by blast
qed

theorem budget_zero_exclusion_witness:
  "Budget_Hrs row_zero_budget = Some 0 \<and> 0 < actualHrs row_zero_budget \<and>
   (\<exists>s. pass1 no_filters (Fin (3 / 10)) [row_J1] = Inr s \<and>
      map fst (consultants s) = [''Alice''] \<and>
      pass1_row no_filters (Fin (3 / 10)) s row_zero_budget = Inr s) \<and>
   (\<exists>s. pass2 (Fin (3 / 10)) {''J1''} [row_J1] = Inr s \<and>
      map fst (allCustomers s) = [''Acme''] \<and>
      pass2_row (Fin (3 / 10)) {''J1''} s row_zero_budget = Inr s) \<and>
   map_sum id
     (\<lambda>s. map (\<lambda>kv. (fst kv, map (\<lambda>d. (pd_budgetHrs d, variance (pd_actualHrs d) (pd_budgetHrs d)))
                                (c_projectDetails (snd kv)))) (consultants s))
     (pass1 no_filters (Fin (3 / 10)) [row_J1, row_zero_budget]) =
     Inr [(''Alice'', [(100, Fin (1 / 5))])]"
proof -
  have h: "Budget_Hrs row_zero_budget = Some 0" "0 < actualHrs row_zero_budget"
    by (simp_all add: row_zero_budget_def actualHrs_def num_or_0_def)
  have e1: "map_sum id (\<lambda>s. map fst (consultants s)) (pass1 no_filters (Fin (3 / 10)) [row_J1]) =
      Inr [''Alice'']"
    by code_simp
  then obtain s1 where s1: "pass1 no_filters (Fin (3 / 10)) [row_J1] = Inr s1"
    "map fst (consultants s1) = [''Alice'']"
    by (cases "pass1 no_filters (Fin (3 / 10)) [row_J1]") auto
  have e2: "map_sum id (\<lambda>s. map fst (allCustomers s)) (pass2 (Fin (3 / 10)) {''J1''} [row_J1]) =
      Inr [''Acme'']"
    by code_simp
  then obtain s2 where s2: "pass2 (Fin (3 / 10)) {''J1''} [row_J1] = Inr s2"
    "map fst (allCustomers s2) = [''Acme'']"
    by (cases "pass2 (Fin (3 / 10)) {''J1''} [row_J1]") auto
  have e3: "map_sum id
     (\<lambda>s. map (\<lambda>kv. (fst kv, map (\<lambda>d. (pd_budgetHrs d, variance (pd_actualHrs d) (pd_budgetHrs d)))
                                (c_projectDetails (snd kv)))) (consultants s))
     (pass1 no_filters (Fin (3 / 10)) [row_J1, row_zero_budget]) =
     Inr [(''Alice'', [(100, Fin (1 / 5))])]"
    by code_simp
  from budget_zero_exclusion [of row_zero_budget no_filters "Fin (3 / 10)" s1 "{''J1''}" s2] h(1)
  have u: "pass1_row no_filters (Fin (3 / 10)) s1 row_zero_budget = Inr s1"
    "pass2_row (Fin (3 / 10)) {''J1''} s2 row_zero_budget = Inr s2"
    by blast+
  have a: "\<exists>s. pass1 no_filters (Fin (3 / 10)) [row_J1] = Inr s \<and>
      map fst (consultants s) = [''Alice''] \<and>
      pass1_row no_filters (Fin (3 / 10)) s row_zero_budget = Inr s"
    by (rule exI [of _ s1]) (intro conjI s1 u)
  have b: "\<exists>s. pass2 (Fin (3 / 10)) {''J1''} [row_J1] = Inr s \<and>
      map fst (allCustomers s) = [''Acme''] \<and>
      pass2_row (Fin (3 / 10)) {''J1''} s row_zero_budget = Inr s"
    by (rule exI [of _ s2]) (intro conjI s2 u)
  show ?thesis
    by (intro conjI h a b e3)
qed

subsection \<open>Sorting, scores and metrics on finite numbers\<close>

lemma fin_list: "list_all is_Fin xs \<Longrightarrow> map Fin (map the_Fin xs) = xs"
proof (induction xs)
  case Nil
  show ?case by simp
next
  case (Cons x xs)
  then show ?case by (cases x) simp_all
qed















lemma collect_some:
  "\<forall>x \<in> set xs. \<exists>y. f x = Inr y \<Longrightarrow>
   \<exists>ys. collect (map f xs) = Inr ys \<and> (\<forall>y \<in> set ys. \<exists>x \<in> set xs. f x = Inr y)"
proof (induction xs)
  case Nil
  show ?case by simp
next
  case (Cons x xs)
  then obtain y where y: "f x = Inr y" by auto
  from Cons obtain ys where ys: "collect (map f xs) = Inr ys"
    "\<forall>y \<in> set ys. \<exists>x \<in> set xs. f x = Inr y" by auto
  show ?case using y ys by auto
qed








text \<open>A consultant named like a member of \<^verbatim>\<open>Object.prototype\<close> ends pass 1, and with it
  the analysis, with a \<open>TypeError\<close>: there is no accumulator and no output then, and the
  properties below speak of the runs that complete.\<close>

lemma prototype_name_throws:
  "accepted_consultants no_filters row_constructor = [''constructor''] \<and>
   pass1 no_filters (Fin (3 / 10)) [row_constructor] = Inl TypeError \<and>
   analyzeData [row_constructor] no_filters default_config = Inl TypeError"
  by code_simp




subsection \<open>DAS+ scoring\<close>




subsection \<open>The success threshold\<close>




subsection \<open>Customer risk scoring\<close>

lemma riskScore_rule:
  "riskScore_of c =
     (if js_lt (cum_successRate c) (Fin 50) then 4
      else if js_lt (cum_successRate c) (Fin 70) then 2
      else if js_lt (cum_successRate c) (Fin 85) then 1 else 0) +
     (if 10 \<le> cum_projects c then 0 else if 5 \<le> cum_projects c then 1 else 2) +
     (if js_gt (js_abs (cum_avgVariance c)) (Fin 50) then 3
      else if js_gt (js_abs (cum_avgVariance c)) (Fin 30) then 2
      else if js_gt (js_abs (cum_avgVariance c)) (Fin 15) then 1 else 0) +
     (if 5000 < cum_totalBudgetHrs c then 1 else if 2000 < cum_totalBudgetHrs c then 0 else 1)"
  by (simp add: riskScore_of_def Let_def js_gt_def)

text \<open>
  Claim C4. The risk score is the sum of the four contributions and the level follows the
  breakpoints 2, 5 and 8, as \<open>riskScore_rule\<close> shows; but the budget-size contribution is
  0 only for a total budget above 2000 and up to 5000. A customer with five projects of
  400 budget hours each, four of them within budget, has success rate 80, average
  variance 10 and a total budget of exactly 2000 hours: the engine adds 1 for the budget
  size and reports the score 3 and the level Medium, where the claimed rule (0 at exactly
  2000, as the README's table "2000-5000 hours = 0 points, <2000 hours = 1 point" has it)
  gives the score 2 and the level Low.
\<close>

theorem risk_budget_boundary_2000:
  "map_sum id (\<lambda>a. map risk_view (a_customers_company a))
     (analyzeData rows_budget_2000 no_filters default_config) =
     Inr [(''Acme'', 5, Fin 80, Fin 10, 2000, 3, ''Medium'')] \<and>
   map_sum id (\<lambda>a. map risk_view (a_customers_practice a))
     (analyzeData rows_budget_2000 no_filters default_config) =
     Inr [(''Acme'', 5, Fin 80, Fin 10, 2000, 3, ''Medium'')]"
  by code_simp

subsection \<open>CSV export\<close>

text \<open>
  Claim C8. The consultant serialiser wraps every name in double quotes but does not
  double the quotes inside it. For the two-row report whose first name is
  \<open>Doe, "JD" Jane\<close> the text holds the name unchanged between quotes; read back with the
  quoted-field reader, the first field is \<open>Doe, JD Jane\<close>, not the original name. The
  escaping the specification describes would have been read back exactly.
\<close>

theorem csv_quotes_not_doubled:
  "generateCSV_consultants [report_row_quoted, report_row_plain] =
     ''Consultant,Projects,Hours,Efficiency %,Success Rate %,Within Budget,Over Budget'' @ [nl] @
     [dq] @ ''Doe, '' @ [dq] @ ''JD'' @ [dq] @ '' Jane'' @ [dq] @ '',3,120,66.7,66.7,2,1'' @ [nl] @
     [dq] @ ''Alice'' @ [dq] @ '',1,120,100.0,100.0,1,0'' @ [nl] \<and>
   parse_csv_line (butlast (csv_consultant_line report_row_quoted)) =
     [''Doe, JD Jane'', ''3'', ''120'', ''66.7'', ''66.7'', ''2'', ''1''] \<and>
   hd (parse_csv_line (butlast (csv_consultant_line report_row_quoted))) \<noteq>
     rr_name report_row_quoted \<and>
   parse_csv_line (csv_escape (rr_name report_row_quoted) @ '',3,120,66.7,66.7,2,1'') =
     [rr_name report_row_quoted, ''3'', ''120'', ''66.7'', ''66.7'', ''2'', ''1'']"
  by code_simp

subsection \<open>What one row adds\<close>

lemma forEach_Cons_Inr:
  assumes "forEach f s (x # xs) = Inr t"
  obtains s' where "f s x = Inr s'" "forEach f s' xs = Inr t"
  using assms by (cases "f s x") simp_all

lemma map_of_put_entry:
  "map_of (put_entry init f k m) k' =
     (if k' = k then Some (f (case map_of m k of None \<Rightarrow> init | Some v \<Rightarrow> v)) else map_of m k')"
  by (induction m) auto

lemma add_consultant_fields:
  "c_projects (add_consultant_project thr r c) = c_projects c + 1"
  "c_totalHours (add_consultant_project thr r c) = c_totalHours c + actualHrs r"
  by (simp_all add: add_consultant_project_def Let_def)

lemma projects_of_put:
  "projects_of (put_entry empty_consultant (add_consultant_project thr r) n m) k =
     projects_of m k + (if n = k then 1 else 0)"
  by (auto simp: projects_of_def map_of_put_entry add_consultant_fields empty_consultant_def
           split: option.splits)

lemma hours_of_put:
  "hours_of (put_entry empty_consultant (add_consultant_project thr r) n m) k =
     hours_of m k + (if n = k then actualHrs r else 0)"
  by (auto simp: hours_of_def map_of_put_entry add_consultant_fields empty_consultant_def
           split: option.splits)

lemma consultant_forEach_counts:
  assumes "forEach (consultant_step flt thr r) st ns = Inr t"
  shows "projects_of (fst t) k =
     projects_of (fst st) k +
     count_list (filter (\<lambda>n. engineer_filter_passes flt n \<and> \<not> is_excluded flt n (jobNumber r)) ns) k"
    and "hours_of (fst t) k =
     hours_of (fst st) k +
     of_nat (count_list
       (filter (\<lambda>n. engineer_filter_passes flt n \<and> \<not> is_excluded flt n (jobNumber r)) ns) k) *
     actualHrs r"
    and "snd t =
     (snd st \<or>
      filter (\<lambda>n. engineer_filter_passes flt n \<and> \<not> is_excluded flt n (jobNumber r)) ns \<noteq> [])"
  using assms
proof (induction ns arbitrary: st)
  case Nil
  case 1 then show ?case by simp
  case 2 then show ?case by simp
  case 3 then show ?case by simp
next
  case (Cons n ns)
  case 1
  from 1 obtain s' where s': "consultant_step flt thr r st n = Inr s'"
    "forEach (consultant_step flt thr r) s' ns = Inr t"
    by (rule forEach_Cons_Inr)
  show ?case
    unfolding Cons.IH(1) [OF s'(2)] consultant_step_Inr(1) [OF s'(1)]
    by (simp add: projects_of_put)
  case 2
  from 2 obtain s' where s': "consultant_step flt thr r st n = Inr s'"
    "forEach (consultant_step flt thr r) s' ns = Inr t"
    by (rule forEach_Cons_Inr)
  show ?case
    unfolding Cons.IH(2) [OF s'(2)] consultant_step_Inr(1) [OF s'(1)]
    by (simp add: hours_of_put algebra_simps)
  case 3
  from 3 obtain s' where s': "consultant_step flt thr r st n = Inr s'"
    "forEach (consultant_step flt thr r) s' ns = Inr t"
    by (rule forEach_Cons_Inr)
  show ?case
    unfolding Cons.IH(3) [OF s'(2)] consultant_step_Inr(1) [OF s'(1)]
    by auto
qed

lemma process_consultants_counts:
  assumes "process_consultants flt thr r st = Inr t"
  shows "projects_of (fst t) k = projects_of (fst st) k + count_list (accepted_consultants flt r) k"
    and "hours_of (fst t) k =
      hours_of (fst st) k + of_nat (count_list (accepted_consultants flt r) k) * actualHrs r"
    and "snd t = (snd st \<or> accepted_consultants flt r \<noteq> [])"
proof -
  show "projects_of (fst t) k = projects_of (fst st) k + count_list (accepted_consultants flt r) k"
  proof (cases "str_or (Resources_Engaged r) [] \<noteq> [] \<and> 0 < budgetHrs r")
    case True
    with assms have "forEach (consultant_step flt thr r) st
        (name_list (str_or (Resources_Engaged r) [])) = Inr t"
      by (simp add: process_consultants_run)
    from consultant_forEach_counts(1) [OF this] True show ?thesis
      by (simp add: accepted_consultants_def)
  next
    case False
    with assms have "t = st" by (simp add: process_consultants_skip)
    with False show ?thesis by (auto simp: accepted_consultants_def)
  qed
  show "hours_of (fst t) k =
      hours_of (fst st) k + of_nat (count_list (accepted_consultants flt r) k) * actualHrs r"
  proof (cases "str_or (Resources_Engaged r) [] \<noteq> [] \<and> 0 < budgetHrs r")
    case True
    with assms have "forEach (consultant_step flt thr r) st
        (name_list (str_or (Resources_Engaged r) [])) = Inr t"
      by (simp add: process_consultants_run)
    from consultant_forEach_counts(2) [OF this] True show ?thesis
      by (simp add: accepted_consultants_def)
  next
    case False
    with assms have "t = st" by (simp add: process_consultants_skip)
    with False show ?thesis by (auto simp: accepted_consultants_def)
  qed
  show "snd t = (snd st \<or> accepted_consultants flt r \<noteq> [])"
  proof (cases "str_or (Resources_Engaged r) [] \<noteq> [] \<and> 0 < budgetHrs r")
    case True
    with assms have "forEach (consultant_step flt thr r) st
        (name_list (str_or (Resources_Engaged r) [])) = Inr t"
      by (simp add: process_consultants_run)
    from consultant_forEach_counts(3) [OF this] True show ?thesis
      by (simp add: accepted_consultants_def)
  next
    case False
    with assms have "t = st" by (simp add: process_consultants_skip)
    with False show ?thesis by (auto simp: accepted_consultants_def)
  qed
qed

lemma sa_projects_of_put:
  "sa_projects_of (put_entry empty_sa (add_sa_project thr r) n m) k =
     sa_projects_of m k + (if n = k then 1 else 0)"
  by (auto simp: sa_projects_of_def map_of_put_entry add_sa_project_def empty_sa_def Let_def
           split: option.splits)

lemma sa_forEach_counts:
  assumes "forEach (sa_step flt thr r) st ns = Inr t"
  shows "sa_projects_of (fst t) k =
     sa_projects_of (fst st) k + count_list (filter (sa_filter_passes flt) ns) k"
    and "snd t = (snd st \<or> filter (sa_filter_passes flt) ns \<noteq> [])"
  using assms
proof (induction ns arbitrary: st)
  case Nil
  case 1 then show ?case by simp
  case 2 then show ?case by simp
next
  case (Cons n ns)
  case 1
  from 1 obtain s' where s': "sa_step flt thr r st n = Inr s'"
    "forEach (sa_step flt thr r) s' ns = Inr t"
    by (rule forEach_Cons_Inr)
  show ?case
    unfolding Cons.IH(1) [OF s'(2)] sa_step_Inr(1) [OF s'(1)]
    by (simp add: sa_projects_of_put)
  case 2
  from 2 obtain s' where s': "sa_step flt thr r st n = Inr s'"
    "forEach (sa_step flt thr r) s' ns = Inr t"
    by (rule forEach_Cons_Inr)
  show ?case
    unfolding Cons.IH(2) [OF s'(2)] sa_step_Inr(1) [OF s'(1)]
    by auto
qed

lemma process_sas_counts:
  assumes "process_sas flt thr r st = Inr t"
  shows "sa_projects_of (fst t) k = sa_projects_of (fst st) k + count_list (accepted_sas flt r) k"
    and "snd t = (snd st \<or> accepted_sas flt r \<noteq> [])"
proof -
  let ?g = "str_or (Solution_Architect r) [] \<noteq> [] \<and> trim (str_or (Solution_Architect r) []) \<noteq> [] \<and>
      0 < budgetHrs r"
  show "sa_projects_of (fst t) k = sa_projects_of (fst st) k + count_list (accepted_sas flt r) k"
  proof (cases ?g)
    case True
    with assms have "forEach (sa_step flt thr r) st
        (name_list (str_or (Solution_Architect r) [])) = Inr t"
      by (simp add: process_sas_run)
    from sa_forEach_counts(1) [OF this] True show ?thesis
      by (simp add: accepted_sas_def)
  next
    case False
    with assms have "t = st" by (simp add: process_sas_skip)
    with False show ?thesis by (auto simp: accepted_sas_def)
  qed
  show "snd t = (snd st \<or> accepted_sas flt r \<noteq> [])"
  proof (cases ?g)
    case True
    with assms have "forEach (sa_step flt thr r) st
        (name_list (str_or (Solution_Architect r) [])) = Inr t"
      by (simp add: process_sas_run)
    from sa_forEach_counts(2) [OF this] True show ?thesis
      by (simp add: accepted_sas_def)
  next
    case False
    with assms have "t = st" by (simp add: process_sas_skip)
    with False show ?thesis by (auto simp: accepted_sas_def)
  qed
qed

lemma pass1_row_practice:
  assumes "pass1_row flt thr st r = Inr t"
  shows "practiceProjects t =
     (if accepted_consultants flt r \<noteq> [] \<or> accepted_sas flt r \<noteq> []
      then insert (jobNumber r) (practiceProjects st) else practiceProjects st)"
proof -
  from assms obtain cp sp where
    cp: "process_consultants flt thr r (consultants st, False) = Inr cp"
    and sp: "process_sas flt thr r (architects st, snd cp) = Inr sp"
    and p: "practiceProjects t =
       (if snd sp then insert (jobNumber r) (practiceProjects st) else practiceProjects st)"
    by (rule pass1_row_Inr)
  have "snd sp = (accepted_consultants flt r \<noteq> [] \<or> accepted_sas flt r \<noteq> [])"
    using process_consultants_counts(3) [OF cp] process_sas_counts(2) [OF sp] by simp
  with p show ?thesis by simp
qed

lemma pass1_forEach_practice:
  "forEach (pass1_row flt thr) st data = Inr t \<Longrightarrow>
   practiceProjects t =
     practiceProjects st \<union>
     {jobNumber r | r. r \<in> set data \<and>
        (accepted_consultants flt r \<noteq> [] \<or> accepted_sas flt r \<noteq> [])}"
proof (induction data arbitrary: st)
  case Nil
  then show ?case by simp
next
  case (Cons r data)
  from Cons.prems obtain s' where s': "pass1_row flt thr st r = Inr s'"
    "forEach (pass1_row flt thr) s' data = Inr t"
    by (rule forEach_Cons_Inr)
  show ?case
    unfolding Cons.IH [OF s'(2)] pass1_row_practice [OF s'(1)] by auto
qed

lemma pass1_practice:
  "pass1 flt thr data = Inr t \<Longrightarrow>
   job \<in> practiceProjects t \<longleftrightarrow>
     (\<exists>r \<in> set data. jobNumber r = job \<and>
        (accepted_consultants flt r \<noteq> [] \<or> accepted_sas flt r \<noteq> []))"
  unfolding pass1_def by (drule pass1_forEach_practice) auto

lemma pass1_row_counts:
  assumes "pass1_row flt thr st r = Inr t"
  shows "projects_of (consultants t) n =
     projects_of (consultants st) n + count_list (accepted_consultants flt r) n"
    and "hours_of (consultants t) n =
     hours_of (consultants st) n + of_nat (count_list (accepted_consultants flt r) n) * actualHrs r"
    and "sa_projects_of (architects t) n =
     sa_projects_of (architects st) n + count_list (accepted_sas flt r) n"
proof -
  from assms obtain cp sp where
    cp: "process_consultants flt thr r (consultants st, False) = Inr cp"
    and sp: "process_sas flt thr r (architects st, snd cp) = Inr sp"
    and c: "consultants t = fst cp" and a: "architects t = fst sp"
    by (rule pass1_row_Inr)
  show "projects_of (consultants t) n =
     projects_of (consultants st) n + count_list (accepted_consultants flt r) n"
    using process_consultants_counts(1) [OF cp] by (simp add: c)
  show "hours_of (consultants t) n =
     hours_of (consultants st) n + of_nat (count_list (accepted_consultants flt r) n) * actualHrs r"
    using process_consultants_counts(2) [OF cp] by (simp add: c)
  show "sa_projects_of (architects t) n =
     sa_projects_of (architects st) n + count_list (accepted_sas flt r) n"
    using process_sas_counts(1) [OF sp] by (simp add: a)
qed

lemma trim_Nil [simp]: "trim [] = []"
  by (simp add: trim_def)

lemma customer_projects_put:
  "customer_projects (put_entry empty_customer (add_customer_project thr r) n m) k =
     customer_projects m k + (if n = k then 1 else 0)"
  by (auto simp: customer_projects_def map_of_put_entry add_customer_project_def
        empty_customer_def Let_def split: option.splits)

lemma pass2_row_counts:
  assumes "pass2_row thr practice st r = Inr t"
  shows "customer_projects (allCustomers t) k =
     customer_projects (allCustomers st) k +
     (if customer_row r \<and> customerName r = k then 1 else 0)"
    and "customer_projects (customers t) k =
     customer_projects (customers st) k +
     (if customer_row r \<and> customerName r = k \<and> jobNumber r \<in> practice then 1 else 0)"
  unfolding pass2_row_Inr(1) [OF assms] pass2_row_Inr(2) [OF assms]
  by (auto simp: customer_row_def customer_projects_put)

lemma pass2_forEach_counts:
  assumes "forEach (pass2_row thr practice) st data = Inr t"
  shows "customer_projects (allCustomers t) k =
     customer_projects (allCustomers st) k +
     length (filter (\<lambda>r. customer_row r \<and> customerName r = k) data)"
    and "customer_projects (customers t) k =
     customer_projects (customers st) k +
     length (filter (\<lambda>r. customer_row r \<and> customerName r = k \<and> jobNumber r \<in> practice) data)"
  using assms
proof (induction data arbitrary: st)
  case Nil
  case 1 then show ?case by simp
  case 2 then show ?case by simp
next
  case (Cons r data)
  case 1
  from 1 obtain s' where s': "pass2_row thr practice st r = Inr s'"
    "forEach (pass2_row thr practice) s' data = Inr t"
    by (rule forEach_Cons_Inr)
  show ?case
    unfolding Cons.IH(1) [OF s'(2)] pass2_row_counts(1) [OF s'(1)] by simp
  case 2
  from 2 obtain s' where s': "pass2_row thr practice st r = Inr s'"
    "forEach (pass2_row thr practice) s' data = Inr t"
    by (rule forEach_Cons_Inr)
  show ?case
    unfolding Cons.IH(2) [OF s'(2)] pass2_row_counts(2) [OF s'(1)] by simp
qed

lemma pass2_counts:
  assumes "pass2 thr practice data = Inr t"
  shows "customer_projects (allCustomers t) k =
     length (filter (\<lambda>r. customer_row r \<and> customerName r = k) data)"
    and "customer_projects (customers t) k =
     length (filter (\<lambda>r. customer_row r \<and> customerName r = k \<and> jobNumber r \<in> practice) data)"
proof -
  have e: "customer_projects [] k = 0"
    by (simp add: customer_projects_def)
  from assms have f: "forEach (pass2_row thr practice) \<lparr>customers = [], allCustomers = []\<rparr> data = Inr t"
    by (simp add: pass2_def)
  show "customer_projects (allCustomers t) k =
     length (filter (\<lambda>r. customer_row r \<and> customerName r = k) data)"
    using pass2_forEach_counts(1) [OF f, of k] by (simp add: e)
  show "customer_projects (customers t) k =
     length (filter (\<lambda>r. customer_row r \<and> customerName r = k \<and> jobNumber r \<in> practice) data)"
    using pass2_forEach_counts(2) [OF f, of k] by (simp add: e)
qed

lemma name_list_length: "x \<in> set (name_list s) \<Longrightarrow> 1 < length x"
  by (auto simp: name_list_def List.map_filter_def normalize_name_def Let_def split: if_splits)

lemma accepted_consultants_length: "x \<in> set (accepted_consultants flt r) \<Longrightarrow> 1 < length x"
  by (auto simp: accepted_consultants_def split: if_splits dest!: name_list_length)

lemma accepted_Customer_update:
  "accepted_consultants flt (r\<lparr>Customer := x\<rparr>) = accepted_consultants flt r"
  "accepted_sas flt (r\<lparr>Customer := x\<rparr>) = accepted_sas flt r"
  by (simp_all add: accepted_consultants_def accepted_sas_def budgetHrs_def jobNumber_def)

lemma customer_present:
  assumes "\<forall>kv \<in> set m. customer_inv (snd kv)"
  shows "(map_of m k \<noteq> None) = (0 < customer_projects m k)"
proof (cases "map_of m k")
  case None
  then show ?thesis by (simp add: customer_projects_def)
next
  case (Some c)
  then have "(k, c) \<in> set m" by (rule map_of_SomeD)
  with assms have "customer_inv c" by force
  then have "1 \<le> cu_projects c" unfolding customer_inv_def by blast
  with Some show ?thesis by (simp add: customer_projects_def)
qed

lemma pass2_present:
  assumes "pass2 thr practice data = Inr t"
  shows "(map_of (allCustomers t) k \<noteq> None) =
     (\<exists>r \<in> set data. customer_row r \<and> customerName r = k)"
    and "(map_of (customers t) k \<noteq> None) =
     (\<exists>r \<in> set data. customer_row r \<and> customerName r = k \<and> jobNumber r \<in> practice)"
proof -
  have inv: "\<forall>kv \<in> set (allCustomers t). customer_inv (snd kv)"
    "\<forall>kv \<in> set (customers t). customer_inv (snd kv)"
    using pass2_inv [OF assms] unfolding pass2_inv_def by blast+
  have f: "(0 < length (filter P data)) = (\<exists>r \<in> set data. P r)" for P :: "row \<Rightarrow> bool"
    by (simp add: filter_empty_conv)
  show "(map_of (allCustomers t) k \<noteq> None) =
     (\<exists>r \<in> set data. customer_row r \<and> customerName r = k)"
    unfolding customer_present [OF inv(1)] pass2_counts(1) [OF assms] f ..
  show "(map_of (customers t) k \<noteq> None) =
     (\<exists>r \<in> set data. customer_row r \<and> customerName r = k \<and> jobNumber r \<in> practice)"
    unfolding customer_present [OF inv(2)] pass2_counts(2) [OF assms] f ..
qed

subsection \<open>Practice projects and the two customer maps\<close>

text \<open>
  Claim C2, as amended. When pass 1 completes, a job number is in the practice set exactly
  when some row bearing it had an accepted consultant or solution-architect contribution.
  When pass 2 completes, a customer's project count in the company map is the number of
  rows with that customer name whose name is not blank after trimming and whose budget is
  positive (the name is the Customer cell, or \<open>Unknown\<close> when the cell is missing or
  empty); its count in the practice map is the number of those rows whose job number is in
  the practice set. So a customer is in the company map exactly when it has such a row, and
  in the practice map exactly when it has such a row with a practice job number. In
  particular, for a row of any data set with such a customer, whose only consultant fails
  the engineer filter and whose solution-architect cell is empty: the customer is in the
  company map; the job number is marked practice exactly when another row bearing the same
  job number had an accepted contribution; and the customer is in the practice map exactly
  when some row of that customer, this row included, bears a job number marked practice.
\<close>

theorem practice_company_split:
  "(pass1 flt thr data = Inr s1 \<longrightarrow>
      (job \<in> practiceProjects s1 \<longleftrightarrow>
         (\<exists>r \<in> set data. jobNumber r = job \<and>
            (accepted_consultants flt r \<noteq> [] \<or> accepted_sas flt r \<noteq> [])))) \<and>
   (pass2 thr practice data = Inr s2 \<longrightarrow>
      customer_projects (allCustomers s2) k =
        length (filter (\<lambda>r. customer_row r \<and> customerName r = k) data) \<and>
      customer_projects (customers s2) k =
        length (filter (\<lambda>r. customer_row r \<and> customerName r = k \<and> jobNumber r \<in> practice) data) \<and>
      (map_of (allCustomers s2) k \<noteq> None \<longleftrightarrow>
         (\<exists>r \<in> set data. customer_row r \<and> customerName r = k)) \<and>
      (map_of (customers s2) k \<noteq> None \<longleftrightarrow>
         (\<exists>r \<in> set data. customer_row r \<and> customerName r = k \<and> jobNumber r \<in> practice))) \<and>
   (pass1 flt thr data = Inr s1 \<and> pass2 thr (practiceProjects s1) data = Inr s3 \<and>
    r \<in> set data \<and> name_list (str_or (Resources_Engaged r) []) = [n] \<and>
    \<not> engineer_filter_passes flt n \<and> str_or (Solution_Architect r) [] = [] \<and>
    customer_row r \<longrightarrow>
      map_of (allCustomers s3) (customerName r) \<noteq> None \<and>
      (jobNumber r \<in> practiceProjects s1 \<longleftrightarrow>
         (\<exists>r' \<in> set data. r' \<noteq> r \<and> jobNumber r' = jobNumber r \<and>
            (accepted_consultants flt r' \<noteq> [] \<or> accepted_sas flt r' \<noteq> []))) \<and>
      (map_of (customers s3) (customerName r) \<noteq> None \<longleftrightarrow>
         (\<exists>r' \<in> set data. customer_row r' \<and> customerName r' = customerName r \<and>
            jobNumber r' \<in> practiceProjects s1)))"
proof -
  have particular:
    "map_of (allCustomers s3) (customerName r) \<noteq> None \<and>
      (jobNumber r \<in> practiceProjects s1 \<longleftrightarrow>
         (\<exists>r' \<in> set data. r' \<noteq> r \<and> jobNumber r' = jobNumber r \<and>
            (accepted_consultants flt r' \<noteq> [] \<or> accepted_sas flt r' \<noteq> []))) \<and>
      (map_of (customers s3) (customerName r) \<noteq> None \<longleftrightarrow>
         (\<exists>r' \<in> set data. customer_row r' \<and> customerName r' = customerName r \<and>
            jobNumber r' \<in> practiceProjects s1))"
    if p1: "pass1 flt thr data = Inr s1" and p2: "pass2 thr (practiceProjects s1) data = Inr s3"
      and r: "r \<in> set data"
      and h: "name_list (str_or (Resources_Engaged r) []) = [n]" "\<not> engineer_filter_passes flt n"
        "str_or (Solution_Architect r) [] = []" "customer_row r"
  proof -
    have ac: "accepted_consultants flt r = []"
      using h(1,2) by (simp add: accepted_consultants_def)
    have as: "accepted_sas flt r = []"
      using h(3) by (simp add: accepted_sas_def)
    have a: "map_of (allCustomers s3) (customerName r) \<noteq> None"
      unfolding pass2_present(1) [OF p2] using r h(4) by blast
    have b: "jobNumber r \<in> practiceProjects s1 \<longleftrightarrow>
         (\<exists>r' \<in> set data. r' \<noteq> r \<and> jobNumber r' = jobNumber r \<and>
            (accepted_consultants flt r' \<noteq> [] \<or> accepted_sas flt r' \<noteq> []))"
      unfolding pass1_practice [OF p1] using ac as by metis
    have c: "map_of (customers s3) (customerName r) \<noteq> None \<longleftrightarrow>
         (\<exists>r' \<in> set data. customer_row r' \<and> customerName r' = customerName r \<and>
            jobNumber r' \<in> practiceProjects s1)"
      by (rule pass2_present(2) [OF p2])
    show ?thesis using a b c by blast
  qed
  have one: "job \<in> practiceProjects s1 \<longleftrightarrow>
         (\<exists>r \<in> set data. jobNumber r = job \<and>
            (accepted_consultants flt r \<noteq> [] \<or> accepted_sas flt r \<noteq> []))"
    if "pass1 flt thr data = Inr s1"
    using that by (rule pass1_practice)
  have two: "customer_projects (allCustomers s2) k =
        length (filter (\<lambda>r. customer_row r \<and> customerName r = k) data) \<and>
      customer_projects (customers s2) k =
        length (filter (\<lambda>r. customer_row r \<and> customerName r = k \<and> jobNumber r \<in> practice) data) \<and>
      (map_of (allCustomers s2) k \<noteq> None \<longleftrightarrow>
         (\<exists>r \<in> set data. customer_row r \<and> customerName r = k)) \<and>
      (map_of (customers s2) k \<noteq> None \<longleftrightarrow>
         (\<exists>r \<in> set data. customer_row r \<and> customerName r = k \<and> jobNumber r \<in> practice))"
    if "pass2 thr practice data = Inr s2"
    using pass2_counts [OF that, of k] pass2_present [OF that, of k] by blast
  show ?thesis
    using one two particular by blast
qed

text \<open>The claim as first stated fails in three ways. A customer cell that holds a single space
  is not empty, the budget is positive, and both customer maps stay empty. With the engineer
  filter \<open>Jane Doe\<close> and two rows of job \<open>J1\<close>, one of John Doe for customer \<open>Bco\<close> and one
  of Jane Doe for customer \<open>Aco\<close>, the first row's only consultant fails the filter and its
  solution-architect cell is empty, yet \<open>J1\<close> is marked practice (by the second row) and
  \<open>Bco\<close>, which has no other row, is in the practice map. And a row whose customer is
  named \<open>constructor\<close> is not accumulated: pass 2 ends with a \<open>TypeError\<close>.\<close>

theorem practice_company_split_counterexample:
  "Customer row_blank_customer = Some '' '' \<and> 0 < budgetHrs row_blank_customer \<and>
   map_sum id practiceProjects (pass1 no_filters (Fin (3 / 10)) [row_blank_customer]) =
     Inr {''J7''} \<and>
   map_sum id (\<lambda>s. (allCustomers s, customers s))
     (pass2 (Fin (3 / 10)) {''J7''} [row_blank_customer]) = Inr ([], []) \<and>
   name_list (str_or (Resources_Engaged row_bco) []) = [''John Doe''] \<and>
   \<not> engineer_filter_passes jane_only ''John Doe'' \<and>
   str_or (Solution_Architect row_bco) [] = [] \<and>
   customerName row_bco = ''Bco'' \<and> customerName row_aco = ''Aco'' \<and>
   jobNumber row_bco = ''J1'' \<and>
   map_sum id practiceProjects (pass1 jane_only (Fin (3 / 10)) [row_bco, row_aco]) =
     Inr {''J1''} \<and>
   map_sum id (\<lambda>s. map (\<lambda>kv. (fst kv, cu_projects (snd kv))) (customers s))
     (pass2 (Fin (3 / 10)) {''J1''} [row_bco, row_aco]) = Inr [(''Bco'', 1), (''Aco'', 1)] \<and>
   Customer row_customer_constructor = Some ''constructor'' \<and>
   0 < budgetHrs row_customer_constructor \<and>
   map_sum id practiceProjects (pass1 no_filters (Fin (3 / 10)) [row_customer_constructor]) =
     Inr {''J4''} \<and>
   pass2 (Fin (3 / 10)) {''J4''} [row_customer_constructor] = Inl TypeError \<and>
   analyzeData [row_customer_constructor] no_filters default_config = Inl TypeError"
  by code_simp

theorem practice_company_split_witness:
  "name_list (str_or (Resources_Engaged row_john) []) = [''John Doe''] \<and>
   \<not> engineer_filter_passes jane_only ''John Doe'' \<and>
   str_or (Solution_Architect row_john) [] = [] \<and> customer_row row_john \<and>
   (\<exists>s1 s3. pass1 jane_only (Fin (3 / 10)) [row_john, row_J1] = Inr s1 \<and>
      pass2 (Fin (3 / 10)) (practiceProjects s1) [row_john, row_J1] = Inr s3 \<and>
      practiceProjects s1 = {''J1''} \<and>
      jobNumber row_john \<notin> practiceProjects s1 \<and>
      map_of (allCustomers s3) (customerName row_john) \<noteq> None \<and>
      map_of (customers s3) (customerName row_john) \<noteq> None)"
proof -
  have h: "name_list (str_or (Resources_Engaged row_john) []) = [''John Doe'']"
    "\<not> engineer_filter_passes jane_only ''John Doe''"
    "str_or (Solution_Architect row_john) [] = []" "customer_row row_john"
    by code_simp+
  have j: "jobNumber row_J1 = ''J1''" "jobNumber row_john = ''J6''"
    "customer_row row_J1" "customerName row_J1 = customerName row_john"
    by code_simp+
  have e1: "map_sum id practiceProjects (pass1 jane_only (Fin (3 / 10)) [row_john, row_J1]) =
      Inr {''J1''}"
    by code_simp
  then obtain s1 where s1: "pass1 jane_only (Fin (3 / 10)) [row_john, row_J1] = Inr s1"
    "practiceProjects s1 = {''J1''}"
    by (cases "pass1 jane_only (Fin (3 / 10)) [row_john, row_J1]") auto
  have e2: "map_sum id (\<lambda>s. ()) (pass2 (Fin (3 / 10)) {''J1''} [row_john, row_J1]) = Inr ()"
    by code_simp
  then obtain s3 where "pass2 (Fin (3 / 10)) {''J1''} [row_john, row_J1] = Inr s3"
    by (cases "pass2 (Fin (3 / 10)) {''J1''} [row_john, row_J1]") auto
  then have s3: "pass2 (Fin (3 / 10)) (practiceProjects s1) [row_john, row_J1] = Inr s3"
    by (simp only: s1(2))
  have n: "jobNumber row_john \<notin> practiceProjects s1"
    by (simp add: s1(2) j(2))
  have m: "row_john \<in> set [row_john, row_J1]" "row_J1 \<in> set [row_john, row_J1]"
    by simp_all
  have q: "jobNumber row_J1 \<in> practiceProjects s1"
    by (simp add: s1(2) j(1))
  note t = practice_company_split [where flt = jane_only and thr = "Fin (3 / 10)"
      and data = "[row_john, row_J1]" and ?s1.0 = s1 and ?s3.0 = s3 and r = row_john
      and n = "''John Doe''"]
  from t s1(1) s3 m(1) h have a: "map_of (allCustomers s3) (customerName row_john) \<noteq> None"
    by blast
  from t s1(1) s3 m(1) h have "map_of (customers s3) (customerName row_john) \<noteq> None \<longleftrightarrow>
         (\<exists>r' \<in> set [row_john, row_J1]. customer_row r' \<and> customerName r' = customerName row_john \<and>
            jobNumber r' \<in> practiceProjects s1)"
    by blast
  with m(2) j(3,4) q have b: "map_of (customers s3) (customerName row_john) \<noteq> None"
    by blast
  have ex: "\<exists>s1 s3. pass1 jane_only (Fin (3 / 10)) [row_john, row_J1] = Inr s1 \<and>
      pass2 (Fin (3 / 10)) (practiceProjects s1) [row_john, row_J1] = Inr s3 \<and>
      practiceProjects s1 = {''J1''} \<and>
      jobNumber row_john \<notin> practiceProjects s1 \<and>
      map_of (allCustomers s3) (customerName row_john) \<noteq> None \<and>
      map_of (customers s3) (customerName row_john) \<noteq> None"
    by (rule exI [of _ s1], rule exI [of _ s3]) (intro conjI s1 s3 n a b)
  show ?thesis
    by (intro conjI h ex)
qed

subsection \<open>Fan-out of a row to its consultants\<close>

text \<open>
  Claim C6, as amended. When pass 1 processes a row, the row adds to the hours of a
  consultant its full actual hours once for every accepted occurrence of the name in its
  resource list, and one project for each; nothing is divided among the consultants of the
  row. Every accepted name is longer than one character, since the normaliser drops
  shorter ones. A row with resources \<open>Al, Bo\<close> and 10 actual hours credits 10 hours to each
  of the two.
\<close>

theorem fan_out_full_hours:
  "(pass1_row flt thr st r = Inr st' \<longrightarrow>
      hours_of (consultants st') n =
        hours_of (consultants st) n +
        of_nat (count_list (accepted_consultants flt r) n) * actualHrs r \<and>
      projects_of (consultants st') n =
        projects_of (consultants st) n + count_list (accepted_consultants flt r) n) \<and>
   (\<forall>x \<in> set (accepted_consultants flt r). 1 < length x) \<and>
   accepted_consultants no_filters row_Al_Bo = [''Al'', ''Bo''] \<and> actualHrs row_Al_Bo = 10 \<and>
   map_sum id (\<lambda>s. (hours_of (consultants s) ''Al'', hours_of (consultants s) ''Bo''))
     (pass1 no_filters (Fin (3 / 10)) [row_Al_Bo]) = Inr (10, 10)"
proof -
  have e: "accepted_consultants no_filters row_Al_Bo = [''Al'', ''Bo'']"
    "actualHrs row_Al_Bo = 10"
    "map_sum id (\<lambda>s. (hours_of (consultants s) ''Al'', hours_of (consultants s) ''Bo''))
       (pass1 no_filters (Fin (3 / 10)) [row_Al_Bo]) = Inr (10, 10)"
    by code_simp+
  have c: "hours_of (consultants st') n =
        hours_of (consultants st) n +
        of_nat (count_list (accepted_consultants flt r) n) * actualHrs r \<and>
      projects_of (consultants st') n =
        projects_of (consultants st) n + count_list (accepted_consultants flt r) n"
    if "pass1_row flt thr st r = Inr st'"
    using pass1_row_counts(1,2) [OF that, of n] by blast
  show ?thesis
    using e c accepted_consultants_length [of _ flt r] by blast
qed

text \<open>The example of the claim as first stated, resources \<open>A, B\<close>: both names have a single
  character, the normaliser drops them and no accumulator is created. And a listed name that
  is a member of \<open>Object.prototype\<close>, as in \<open>constructor, Al\<close>, ends the pass with a
  \<open>TypeError\<close> before any other name of the row is credited.\<close>

theorem fan_out_full_hours_counterexample:
  "Resources_Engaged row_A_B = Some ''A, B'' \<and> actualHrs row_A_B = 10 \<and> 0 < budgetHrs row_A_B \<and>
   map_sum id (\<lambda>s. (consultants s, hours_of (consultants s) ''A'', hours_of (consultants s) ''B''))
     (pass1 no_filters (Fin (3 / 10)) [row_A_B]) = Inr ([], 0, 0) \<and>
   accepted_consultants no_filters row_constructor_Al = [''constructor'', ''Al''] \<and>
   pass1 no_filters (Fin (3 / 10)) [row_constructor_Al] = Inl TypeError"
  by code_simp

theorem fan_out_full_hours_witness:
  "accepted_consultants no_filters row_Al_Bo = [''Al'', ''Bo''] \<and>
   (\<exists>s s'. pass1 no_filters (Fin (3 / 10)) [row_J1] = Inr s \<and>
      pass1_row no_filters (Fin (3 / 10)) s row_Al_Bo = Inr s' \<and>
      hours_of (consultants s') ''Al'' = 10 \<and>
      hours_of (consultants s') ''Bo'' = 10 \<and>
      hours_of (consultants s') ''Alice'' = 120) \<and>
   list_all (\<lambda>x. 1 < length x) (accepted_consultants no_filters row_Al_Bo)"
proof -
  have e: "map_sum id
      (\<lambda>s. (hours_of (consultants s) ''Al'', hours_of (consultants s) ''Bo'',
             hours_of (consultants s) ''Alice'',
             map_sum id (\<lambda>s'. ()) (pass1_row no_filters (Fin (3 / 10)) s row_Al_Bo)))
      (pass1 no_filters (Fin (3 / 10)) [row_J1]) = Inr (0, 0, 120, Inr ())"
    by code_simp
  then obtain s where s: "pass1 no_filters (Fin (3 / 10)) [row_J1] = Inr s"
    "hours_of (consultants s) ''Al'' = 0" "hours_of (consultants s) ''Bo'' = 0"
    "hours_of (consultants s) ''Alice'' = 120"
    "map_sum id (\<lambda>s'. ()) (pass1_row no_filters (Fin (3 / 10)) s row_Al_Bo) = Inr ()"
    by (cases "pass1 no_filters (Fin (3 / 10)) [row_J1]") auto
  from s(5) obtain s' where s': "pass1_row no_filters (Fin (3 / 10)) s row_Al_Bo = Inr s'"
    by (cases "pass1_row no_filters (Fin (3 / 10)) s row_Al_Bo") auto
  note t = fan_out_full_hours [of no_filters "Fin (3 / 10)" s row_Al_Bo s']
  have a: "accepted_consultants no_filters row_Al_Bo = [''Al'', ''Bo'']" "actualHrs row_Al_Bo = 10"
    using t [of "''Al''"] by blast+
  have h1: "hours_of (consultants s') ''Al'' = 10"
    using t [of "''Al''"] s' by (simp add: a s(2))
  have h2: "hours_of (consultants s') ''Bo'' = 10"
    using t [of "''Bo''"] s' by (simp add: a s(3))
  have h3: "hours_of (consultants s') ''Alice'' = 120"
    using t [of "''Alice''"] s' by (simp add: a s(4))
  have l: "list_all (\<lambda>x. 1 < length x) (accepted_consultants no_filters row_Al_Bo)"
    by (simp add: a)
  have ex: "\<exists>s s'. pass1 no_filters (Fin (3 / 10)) [row_J1] = Inr s \<and>
      pass1_row no_filters (Fin (3 / 10)) s row_Al_Bo = Inr s' \<and>
      hours_of (consultants s') ''Al'' = 10 \<and>
      hours_of (consultants s') ''Bo'' = 10 \<and>
      hours_of (consultants s') ''Alice'' = 120"
    by (rule exI [of _ s], rule exI [of _ s']) (intro conjI s(1) s' h1 h2 h3)
  show ?thesis
    by (intro conjI a(1) ex l)
qed

subsection \<open>Rows without a customer\<close>

text \<open>
  Claim C7, as amended. A row with positive budget whose Customer cell is missing or empty
  is counted under the customer name \<open>Unknown\<close>: in the company map always, in the practice
  map when its job number is in the practice set. A row whose Customer cell is not empty
  but blank (whitespace only) is left out of both customer maps. The consultant and
  solution-architect contributions of a row do not depend on its Customer cell.
\<close>

theorem missing_customer_unknown:
  "(0 < budgetHrs r \<and> (Customer r = None \<or> Customer r = Some []) \<longrightarrow>
      customerName r = ''Unknown'' \<and>
      (\<exists>st'. pass2_row thr practice st r = Inr st' \<and>
         customer_projects (allCustomers st') ''Unknown'' =
           customer_projects (allCustomers st) ''Unknown'' + 1 \<and>
         customer_projects (customers st') ''Unknown'' =
           customer_projects (customers st) ''Unknown'' +
           (if jobNumber r \<in> practice then 1 else 0))) \<and>
   (\<forall>s. Customer r = Some s \<and> s \<noteq> [] \<and> trim s = [] \<longrightarrow> pass2_row thr practice st r = Inr st) \<and>
   accepted_consultants flt (r\<lparr>Customer := x\<rparr>) = accepted_consultants flt r \<and>
   accepted_sas flt (r\<lparr>Customer := x\<rparr>) = accepted_sas flt r \<and>
   (pass1_row flt thr st1 r = Inr st1' \<longrightarrow>
      projects_of (consultants st1') n =
        projects_of (consultants st1) n + count_list (accepted_consultants flt r) n \<and>
      sa_projects_of (architects st1') n =
        sa_projects_of (architects st1) n + count_list (accepted_sas flt r) n)"
proof -
  have u: "customerName r = ''Unknown'' \<and>
      (\<exists>st'. pass2_row thr practice st r = Inr st' \<and>
         customer_projects (allCustomers st') ''Unknown'' =
           customer_projects (allCustomers st) ''Unknown'' + 1 \<and>
         customer_projects (customers st') ''Unknown'' =
           customer_projects (customers st) ''Unknown'' +
           (if jobNumber r \<in> practice then 1 else 0))"
    if "0 < budgetHrs r" "Customer r = None \<or> Customer r = Some []"
  proof -
    have n: "customerName r = ''Unknown''"
      using that(2) by (auto simp: customerName_def str_or_def)
    have tr: "trim ''Unknown'' \<noteq> []"
      by (simp add: trim_def js_ws_def)
    with n that(1) have cr: "customer_row r"
      by (simp add: customer_row_def)
    have k: "''Unknown'' \<notin> set prototype_keys"
      by (simp add: prototype_keys_def)
    have "\<exists>st'. pass2_row thr practice st r = Inr st'"
      using n tr that(1) k by (simp add: pass2_row_def upd_entry_def)
    then obtain st' where st': "pass2_row thr practice st r = Inr st'" ..
    from pass2_row_counts [OF st', of "''Unknown''"] cr n
    have "customer_projects (allCustomers st') ''Unknown'' =
           customer_projects (allCustomers st) ''Unknown'' + 1"
      "customer_projects (customers st') ''Unknown'' =
           customer_projects (customers st) ''Unknown'' +
           (if jobNumber r \<in> practice then 1 else 0)"
      by simp_all
    with st' n show ?thesis by blast
  qed
  have w: "pass2_row thr practice st r = Inr st"
    if "Customer r = Some s" "s \<noteq> []" "trim s = []" for s
    using that by (simp add: pass2_row_def customerName_def str_or_def)
  have c: "projects_of (consultants st1') n =
        projects_of (consultants st1) n + count_list (accepted_consultants flt r) n \<and>
      sa_projects_of (architects st1') n =
        sa_projects_of (architects st1) n + count_list (accepted_sas flt r) n"
    if "pass1_row flt thr st1 r = Inr st1'"
    using pass1_row_counts(1,3) [OF that, of n] by blast
  show ?thesis
    using u w c accepted_Customer_update [where flt = flt and r = r and x = x]
    by blast
qed

text \<open>The claim as first stated fails on a row without a Customer cell: both customer maps
  receive the row under \<open>Unknown\<close>.\<close>

theorem missing_customer_unknown_counterexample:
  "Customer row_no_customer = None \<and> 0 < budgetHrs row_no_customer \<and>
   map_sum id practiceProjects (pass1 no_filters (Fin (3 / 10)) [row_no_customer]) =
     Inr {''J9''} \<and>
   map_sum id (\<lambda>s. (map (\<lambda>kv. (fst kv, cu_projects (snd kv))) (allCustomers s),
                     map (\<lambda>kv. (fst kv, cu_projects (snd kv))) (customers s)))
     (pass2 (Fin (3 / 10)) {''J9''} [row_no_customer]) =
     Inr ([(''Unknown'', 1)], [(''Unknown'', 1)])"
  by code_simp

theorem missing_customer_unknown_witness:
  "0 < budgetHrs row_no_customer \<and> Customer row_no_customer = None \<and>
   (\<exists>st'. pass2_row (Fin (3 / 10)) {} \<lparr>customers = [], allCustomers = []\<rparr> row_no_customer =
        Inr st' \<and>
      customer_projects (allCustomers st') ''Unknown'' = 1 \<and>
      customer_projects (customers st') ''Unknown'' = 0) \<and>
   Customer row_blank_customer = Some '' '' \<and> trim '' '' = [] \<and>
   pass2_row (Fin (3 / 10)) {''J7''} \<lparr>customers = [], allCustomers = []\<rparr> row_blank_customer =
     Inr \<lparr>customers = [], allCustomers = []\<rparr> \<and>
   (\<exists>st1'. pass1_row no_filters (Fin (3 / 10))
        \<lparr>consultants = [], architects = [], practiceProjects = {}\<rparr> row_blank_customer = Inr st1' \<and>
      projects_of (consultants st1') ''Alice'' = 1)"
proof -
  have h: "0 < budgetHrs row_no_customer" "Customer row_no_customer = None"
    "Customer row_blank_customer = Some '' ''" "trim '' '' = []"
    "accepted_consultants no_filters row_blank_customer = [''Alice'']"
    "customer_projects [] ''Unknown'' = 0" "projects_of [] ''Alice'' = 0"
    "jobNumber row_no_customer \<notin> {}"
    by code_simp+
  have e: "map_sum id (\<lambda>s. ()) (pass1_row no_filters (Fin (3 / 10))
        \<lparr>consultants = [], architects = [], practiceProjects = {}\<rparr> row_blank_customer) = Inr ()"
    by code_simp
  then obtain st1' where st1': "pass1_row no_filters (Fin (3 / 10))
        \<lparr>consultants = [], architects = [], practiceProjects = {}\<rparr> row_blank_customer = Inr st1'"
    by (cases "pass1_row no_filters (Fin (3 / 10))
        \<lparr>consultants = [], architects = [], practiceProjects = {}\<rparr> row_blank_customer") auto
  note a = missing_customer_unknown [of row_no_customer "Fin (3 / 10)" "{}"
      "\<lparr>customers = [], allCustomers = []\<rparr>"]
  note b = missing_customer_unknown [of row_blank_customer "Fin (3 / 10)" "{''J7''}"
      "\<lparr>customers = [], allCustomers = []\<rparr>" no_filters _
      "\<lparr>consultants = [], architects = [], practiceProjects = {}\<rparr>" st1' "''Alice''"]
  from a h(1,2) obtain st' where st':
    "pass2_row (Fin (3 / 10)) {} \<lparr>customers = [], allCustomers = []\<rparr> row_no_customer = Inr st'"
    "customer_projects (allCustomers st') ''Unknown'' =
       customer_projects (allCustomers \<lparr>customers = [], allCustomers = []\<rparr>) ''Unknown'' + 1"
    "customer_projects (customers st') ''Unknown'' =
       customer_projects (customers \<lparr>customers = [], allCustomers = []\<rparr>) ''Unknown'' +
       (if jobNumber row_no_customer \<in> {} then 1 else 0)"
    by blast
  have a1: "customer_projects (allCustomers st') ''Unknown'' = 1"
    "customer_projects (customers st') ''Unknown'' = 0"
    using st'(2,3) by (simp_all add: h(6))
  from b h(3,4) have b1: "pass2_row (Fin (3 / 10)) {''J7''} \<lparr>customers = [], allCustomers = []\<rparr>
      row_blank_customer = Inr \<lparr>customers = [], allCustomers = []\<rparr>"
    by blast
  from b st1' have "projects_of (consultants st1') ''Alice'' =
     projects_of (consultants \<lparr>consultants = [], architects = [], practiceProjects = {}\<rparr>) ''Alice'' +
     count_list (accepted_consultants no_filters row_blank_customer) ''Alice''"
    by blast
  then have b2: "projects_of (consultants st1') ''Alice'' = 1"
    by (simp add: h(5,7))
  have ex1: "\<exists>st'. pass2_row (Fin (3 / 10)) {} \<lparr>customers = [], allCustomers = []\<rparr> row_no_customer =
        Inr st' \<and>
      customer_projects (allCustomers st') ''Unknown'' = 1 \<and>
      customer_projects (customers st') ''Unknown'' = 0"
    by (rule exI [of _ st']) (intro conjI st'(1) a1)
  have ex2: "\<exists>st1'. pass1_row no_filters (Fin (3 / 10))
        \<lparr>consultants = [], architects = [], practiceProjects = {}\<rparr> row_blank_customer = Inr st1' \<and>
      projects_of (consultants st1') ''Alice'' = 1"
    by (rule exI [of _ st1']) (intro conjI st1' b2)
  show ?thesis
    by (intro conjI h(1-4) ex1 b1 ex2)
qed

end
